theory Spec2Isabelle
  imports Main "HOL-Library.Word" "HOL-Library.Sublist" "HOL-Library.AList"
begin

section \<open>Go values\<close>

text \<open>
  A Go \<open>map[string]string\<close> is modelled as an association list with distinct keys.
  \<open>range\<close> visits a Go map in an unspecified order; the order of the list stands for
  the order in which the map is visited, and the results below hold for every list.
\<close>

type_synonym options = "(string \<times> string) list"

text \<open>\<open>m[k]\<close>: the zero value (the empty string) when the key is missing.\<close>

definition lookup :: "options \<Rightarrow> string \<Rightarrow> string" where
  "lookup m k = (case map_of m k of None \<Rightarrow> [] | Some v \<Rightarrow> v)"

text \<open>\<open>m[k] = v\<close> and \<open>delete(m, k)\<close>.\<close>

definition set_key :: "options \<Rightarrow> string \<Rightarrow> string \<Rightarrow> options" where
  "set_key m k v = AList.update k v m"

definition delete_key :: "options \<Rightarrow> string \<Rightarrow> options" where
  "delete_key m k = AList.delete k m"

text \<open>\<open>fmt.Sprintf("%d", n)\<close> for a signed integer.\<close>

definition digit_char :: "nat \<Rightarrow> char" where
  "digit_char d = ''0123456789'' ! d"

fun show_nat :: "nat \<Rightarrow> string" where
  "show_nat n = (if n < 10 then [digit_char n] else show_nat (n div 10) @ [digit_char (n mod 10)])"

declare show_nat.simps [simp del]

definition Sprintf_d :: "int \<Rightarrow> string" where
  "Sprintf_d i = (if i < 0 then CHR ''-'' # show_nat (nat (- i)) else show_nat (nat i))"

subsection \<open>Paths\<close>

text \<open>
  \<open>path.Join\<close> and \<open>path.Clean\<close> of the Go standard library: the non-empty leading
  elements are joined with slashes and the result is cleaned lexically (empty and
  \<open>.\<close> elements dropped, \<open>..\<close> cancelling the element before it, the empty result
  written \<open>.\<close>).
\<close>

fun split_slash :: "string \<Rightarrow> string list" where
  "split_slash [] = [[]]"
| "split_slash (c # cs) =
     (if c = CHR ''/'' then [] # split_slash cs
      else (case split_slash cs of [] \<Rightarrow> [[c]] | x # xs \<Rightarrow> (c # x) # xs))"

fun join_slash :: "string list \<Rightarrow> string" where
  "join_slash [] = []"
| "join_slash [x] = x"
| "join_slash (x # y # ys) = x @ ''/'' @ join_slash (y # ys)"

definition clean_step :: "bool \<Rightarrow> string list \<Rightarrow> string \<Rightarrow> string list" where
  "clean_step rooted out c =
     (if c = [] \<or> c = ''.'' then out
      else if c = ''..'' then
        (if out \<noteq> [] \<and> last out \<noteq> ''..'' then butlast out
         else if rooted then out else out @ [c])
      else out @ [c])"

definition is_rooted :: "string \<Rightarrow> bool" where
  "is_rooted p = (case p of [] \<Rightarrow> False | c # _ \<Rightarrow> c = CHR ''/'')"

definition clean_elems :: "string \<Rightarrow> string list" where
  "clean_elems p = foldl (clean_step (is_rooted p)) [] (split_slash p)"

definition root_of :: "string \<Rightarrow> string" where
  "root_of p = (if is_rooted p then ''/'' else [])"

definition Clean :: "string \<Rightarrow> string" where
  "Clean p = (let s = root_of p @ join_slash (clean_elems p) in if s = [] then ''.'' else s)"

definition path_Join :: "string list \<Rightarrow> string" where
  "path_Join elem =
     (let es = dropWhile (\<lambda>e. e = []) elem in if es = [] then [] else Clean (join_slash es))"

text \<open>
  The operating system resolves a path name before it acts on it; the file system
  below holds cleaned names. \<open>ancestors p\<close> are the directories \<open>os.MkdirAll\<close>
  makes sure of. It walks the path as it is written, making the directory of every
  leading part of \<open>p\<close> and then \<open>p\<close> itself, so for a path that steps back with
  \<open>..\<close> the directory it steps out of is made as well. The root and the current
  directory exist already. \<open>under p q\<close>: \<open>q\<close> is \<open>p\<close> or lies in the tree below
  \<open>p\<close>, which is what \<open>os.RemoveAll p\<close> removes.
\<close>

definition ancestors :: "string \<Rightarrow> string list" where
  "ancestors p =
     (let es = split_slash p
      in filter (\<lambda>q. q \<noteq> ''/'' \<and> q \<noteq> ''.'')
           (map (\<lambda>n. Clean (join_slash (take n es))) [1 ..< Suc (length es)]))"

definition under :: "string \<Rightarrow> string \<Rightarrow> bool" where
  "under p q = (q = Clean p \<or> prefix (Clean p @ ''/'') q)"

section \<open>The world outside the provisioner\<close>

text \<open>
  A Kubernetes secret: the credentials of a storage cluster (\<open>Data\<close>) and the list of
  finalizers of its metadata.
\<close>

record secret =
  secret_name :: string
  secret_namespace :: string
  secret_data :: options
  finalizers :: "string list"

text \<open>
  Every call the provisioner makes to the operating system, to the \<open>vstorage\<close> and
  \<open>ploop\<close> libraries, to the \<open>vstorage\<close> command and to the Kubernetes API.
\<close>

datatype severity = Info | Warning | Error

datatype call =
    IsVstorage string
  | MkdirAll string
  | Mountpoint string
  | BindMount string string
  | Auth string string
  | VMount string string
  | Unmount string
  | RemoveAll string
  | VolumeCreate string "64 word" string
  | PloopCreate "64 word" string
  | VolumeOpen string
  | VolumeDelete string
  | SetAttr string string string
  | SecretGet string string
  | Marshal string
  | CreatePatch string
  | SecretPatch string string "string list" "string list"
  | Glog severity string

datatype event = Done call | Failed call

text \<open>
  The state the calls act on: the names that exist in the file system, the ploop
  volumes (by the directory or file they were created with: size in kilobytes and
  image file), the table of mounted clusters (mount point and cluster name), the
  secrets of the API server (by namespace and name), and the calls made so far.
\<close>

record world =
  files :: "string set"
  ploops :: "string \<rightharpoonup> 64 word \<times> string"
  mounts :: "(string \<times> string) list"
  secrets :: "string \<times> string \<rightharpoonup> secret"
  trace :: "event list"

text \<open>
  What one run of the provisioner takes from outside: its identity (the \<open>-id\<close> flag,
  or the identity generated at start-up in the oldest variant), the UUID that
  \<open>uuid.NewUUID\<close> returns, the parser \<open>humanize.ParseBytes\<close> (a value and whether it
  reported an error), and which calls fail.
\<close>

record env =
  provisionerID :: string
  NewUUID :: string
  ParseBytes :: "string \<Rightarrow> 64 word \<times> bool"
  fails :: "call \<Rightarrow> bool"

datatype error =
    Errorf string
  | IgnoredError string
  | CallError call
  | UnableToSet string string error
  | CleanupError error error
  | NilDereference

definition log_event :: "event \<Rightarrow> world \<Rightarrow> world" where
  "log_event e w = w\<lparr>trace := trace w @ [e]\<rparr>"

text \<open>A call that may fail: the failure is recorded and returned, the effect is applied otherwise.\<close>

definition attempt :: "env \<Rightarrow> call \<Rightarrow> (world \<Rightarrow> world) \<Rightarrow> world \<Rightarrow> error option \<times> world" where
  "attempt env c effect w =
     (if fails env c then (Some (CallError c), log_event (Failed c) w)
      else (None, log_event (Done c) (effect w)))"

definition glog :: "severity \<Rightarrow> string \<Rightarrow> world \<Rightarrow> world" where
  "glog s msg w = log_event (Done (Glog s msg)) w"

subsection \<open>Operating system\<close>

definition os_MkdirAll :: "env \<Rightarrow> string \<Rightarrow> world \<Rightarrow> error option \<times> world" where
  "os_MkdirAll env p w =
     attempt env (MkdirAll p) (\<lambda>w. w\<lparr>files := files w \<union> set (ancestors p)\<rparr>) w"

definition os_RemoveAll :: "env \<Rightarrow> string \<Rightarrow> world \<Rightarrow> error option \<times> world" where
  "os_RemoveAll env p w =
     attempt env (RemoveAll p)
       (\<lambda>w. w\<lparr>files := Set.filter (\<lambda>q. \<not> under p q) (files w),
               ploops := (\<lambda>q. if under p q then None else ploops w q)\<rparr>) w"

text \<open>
  \<open>syscall.Mount(source, target, "", MS_BIND, "")\<close>: the target shows the cluster that
  is mounted on the source. \<open>syscall.Unmount(target, MNT_DETACH)\<close> takes the mount
  off the table.
\<close>

definition syscall_Mount :: "env \<Rightarrow> string \<Rightarrow> string \<Rightarrow> world \<Rightarrow> error option \<times> world" where
  "syscall_Mount env source target w =
     attempt env (BindMount source target)
       (\<lambda>w. case map_of (mounts w) source of
               None \<Rightarrow> w
             | Some c \<Rightarrow> w\<lparr>mounts := (target, c) # mounts w\<rparr>) w"

definition syscall_Unmount :: "env \<Rightarrow> string \<Rightarrow> world \<Rightarrow> error option \<times> world" where
  "syscall_Unmount env target w =
     attempt env (Unmount target) (\<lambda>w. w\<lparr>mounts := AList.delete target (mounts w)\<rparr>) w"

subsection \<open>The vstorage library\<close>

text \<open>
  Modelled from the spec: package \<open>vstorage\<close> of ploop-flexvol is not among the
  sources. \<open>IsVstorage\<close> "inspect[s] whether the target local path is already a live
  mount of the cluster" and is "side-effect-free"; \<open>Mountpoint\<close> finds "an existing
  system-wide mount of the cluster" (the empty string when there is none); \<open>Auth\<close>
  authenticates with the password and \<open>Mount\<close> mounts the cluster on the path, each
  with its own failure.
\<close>

definition vstorage_IsVstorage :: "string \<Rightarrow> world \<Rightarrow> bool \<times> world" where
  "vstorage_IsVstorage p w = (map_of (mounts w) p \<noteq> None, log_event (Done (IsVstorage p)) w)"

definition vstorage_Mountpoint :: "string \<Rightarrow> world \<Rightarrow> string \<times> world" where
  "vstorage_Mountpoint clusterName w =
     (case find (\<lambda>(p, c). c = clusterName) (mounts w) of
        None \<Rightarrow> ([], log_event (Done (Mountpoint clusterName)) w)
      | Some (p, c) \<Rightarrow> (p, log_event (Done (Mountpoint clusterName)) w))"

definition vstorage_Auth :: "env \<Rightarrow> string \<Rightarrow> string \<Rightarrow> world \<Rightarrow> error option \<times> world" where
  "vstorage_Auth env clusterName password w = attempt env (Auth clusterName password) (\<lambda>w. w) w"

definition vstorage_Mount :: "env \<Rightarrow> string \<Rightarrow> string \<Rightarrow> world \<Rightarrow> error option \<times> world" where
  "vstorage_Mount env clusterName p w =
     attempt env (VMount clusterName p) (\<lambda>w. w\<lparr>mounts := (p, clusterName) # mounts w\<rparr>) w"

subsection \<open>The ploop library and the vstorage command\<close>

text \<open>
  Modelled from the spec: package \<open>goploop-cli\<close> is not among the sources. The
  volume store "creates the backing volume" and "deletion opens the volume by its
  descriptor, and issues a logical delete". \<open>PloopVolumeCreate dir size image\<close>
  makes the volume directory with its descriptor and the image file of the given
  size; \<open>PloopVolumeOpen\<close> fails when there is no volume at the path; \<open>Delete\<close> on
  an opened volume removes its directory tree and its image. \<open>Create\<close>, used by the
  older variants, makes the image file with its descriptor.
\<close>

definition ploop_PloopVolumeCreate ::
  "env \<Rightarrow> string \<Rightarrow> 64 word \<Rightarrow> string \<Rightarrow> world \<Rightarrow> error option \<times> world" where
  "ploop_PloopVolumeCreate env volumePath sz imagePath w =
     attempt env (VolumeCreate volumePath sz imagePath)
       (\<lambda>w. w\<lparr>files := files w \<union> {Clean volumePath, Clean imagePath},
               ploops := (ploops w)(Clean volumePath \<mapsto> (sz, Clean imagePath))\<rparr>) w"

definition ploop_PloopVolumeOpen :: "env \<Rightarrow> string \<Rightarrow> world \<Rightarrow> (error + string) \<times> world" where
  "ploop_PloopVolumeOpen env volumePath w =
     (if fails env (VolumeOpen volumePath) \<or> ploops w (Clean volumePath) = None
      then (Inl (CallError (VolumeOpen volumePath)), log_event (Failed (VolumeOpen volumePath)) w)
      else (Inr volumePath, log_event (Done (VolumeOpen volumePath)) w))"

definition ploop_Delete :: "env \<Rightarrow> string \<Rightarrow> world \<Rightarrow> error option \<times> world" where
  "ploop_Delete env vol w =
     attempt env (VolumeDelete vol)
       (\<lambda>w. w\<lparr>files := Set.filter (\<lambda>q. \<not> under vol q
                                    \<and> Some q \<noteq> map_option snd (ploops w (Clean vol)))
                          (files w),
               ploops := (\<lambda>q. if under vol q then None else ploops w q)\<rparr>) w"

definition ploop_Create :: "env \<Rightarrow> 64 word \<Rightarrow> string \<Rightarrow> world \<Rightarrow> error option \<times> world" where
  "ploop_Create env sz file w =
     attempt env (PloopCreate sz file)
       (\<lambda>w. w\<lparr>files := files w \<union> {Clean file},
               ploops := (ploops w)(Clean file \<mapsto> (sz, Clean file))\<rparr>) w"

text \<open>\<open>exec.Command("vstorage", "set-attr", "-R", path, attr=value).Run()\<close>.\<close>

definition exec_set_attr :: "env \<Rightarrow> string \<Rightarrow> string \<Rightarrow> string \<Rightarrow> world \<Rightarrow> error option \<times> world" where
  "exec_set_attr env p attr v w = attempt env (SetAttr p attr v) (\<lambda>w. w) w"

subsection \<open>The size parser\<close>

text \<open>
  Modelled from the spec: \<open>humanize.ParseBytes\<close> is an imported library that is not among
  the sources; the provisioner takes it from its environment. The spec speaks of "a
  human-readable size string (e.g. "10G")", reads "10G" as 10 * 1024 * 1024 kilobytes
  and "1Gi" as 1,048,576 kilobytes, and calls "abc" unparseable. So: decimal digits,
  then an optional binary unit; anything else is an error, with the value zero.
\<close>

definition is_digit :: "char \<Rightarrow> bool" where
  "is_digit c = (c \<in> set ''0123456789'')"

definition digits_value :: "string \<Rightarrow> nat" where
  "digits_value ds = foldl (\<lambda>a c. 10 * a + (of_char c - 48)) 0 ds"

definition unit_bytes :: "string \<Rightarrow> nat option" where
  "unit_bytes u =
     (if u = [] \<or> u = ''B'' then Some 1
      else if u = ''K'' \<or> u = ''Ki'' then Some (2 ^ 10)
      else if u = ''M'' \<or> u = ''Mi'' then Some (2 ^ 20)
      else if u = ''G'' \<or> u = ''Gi'' then Some (2 ^ 30)
      else if u = ''T'' \<or> u = ''Ti'' then Some (2 ^ 40)
      else None)"

definition ParseBytes_spec :: "string \<Rightarrow> 64 word \<times> bool" where
  "ParseBytes_spec s =
     (let ds = takeWhile is_digit s; u = dropWhile is_digit s
      in if ds = [] then (0, True)
         else (case unit_bytes u of
                 None \<Rightarrow> (0, True)
               | Some m \<Rightarrow>
                   if digits_value ds * m < 2 ^ 64 then (of_nat (digits_value ds * m), False)
                   else (0, True)))"

subsection \<open>The Kubernetes API\<close>

text \<open>
  Modelled from the spec: the client library and \<open>strategicpatch\<close> are not among the
  sources. \<open>Get(ref)\<close> returns the stored secret, which carries the name and the
  namespace it was asked by. The update is "a minimal differential
  patch" against "an ordered set of obligations": the patch holds the entries of the new
  list that the old list lacks and the entries of the old list that the new list lacks,
  and the server takes the latter out of the stored list and appends the former,
  leaving everything else as it is.
\<close>

definition Secrets_Get :: "env \<Rightarrow> string \<Rightarrow> string \<Rightarrow> world \<Rightarrow> (error + secret) \<times> world" where
  "Secrets_Get env ns name w =
     (case (if fails env (SecretGet ns name) then None else secrets w (ns, name)) of
        None \<Rightarrow> (Inl (CallError (SecretGet ns name)), log_event (Failed (SecretGet ns name)) w)
      | Some s \<Rightarrow> (Inr (s\<lparr>secret_name := name, secret_namespace := ns\<rparr>),
                 log_event (Done (SecretGet ns name)) w))"

definition CreateTwoWayMergePatch :: "string list \<Rightarrow> string list \<Rightarrow> string list \<times> string list" where
  "CreateTwoWayMergePatch old new =
     (filter (\<lambda>x. x \<notin> set old) new, filter (\<lambda>x. x \<notin> set new) old)"

definition apply_patch :: "string list \<times> string list \<Rightarrow> string list \<Rightarrow> string list" where
  "apply_patch patch cur =
     filter (\<lambda>x. x \<notin> set (snd patch)) cur @ filter (\<lambda>x. x \<notin> set cur) (fst patch)"

definition Secrets_Patch ::
  "env \<Rightarrow> string \<Rightarrow> string \<Rightarrow> string list \<times> string list \<Rightarrow> world \<Rightarrow> error option \<times> world" where
  "Secrets_Patch env ns name patch w =
     (case (if fails env (SecretPatch ns name (fst patch) (snd patch)) then None
            else secrets w (ns, name)) of
        None \<Rightarrow> (Some (CallError (SecretPatch ns name (fst patch) (snd patch))),
                 log_event (Failed (SecretPatch ns name (fst patch) (snd patch))) w)
      | Some s \<Rightarrow>
          (None, log_event (Done (SecretPatch ns name (fst patch) (snd patch)))
                   (w\<lparr>secrets := (secrets w)((ns, name) \<mapsto>
                          s\<lparr>finalizers := apply_patch patch (finalizers s)\<rparr>)\<rparr>)))"

subsection \<open>Requests and volumes\<close>

datatype accessMode = ReadWriteOnce | ReadOnlyMany | ReadWriteMany

record labelSelector =
  matchLabels :: "options option"
  matchExpressions :: "string list option"

record persistentVolumeClaim =
  pvc_namespace :: string
  pvc_uid :: string
  pvc_accessModes :: "accessMode list"
  pvc_storage :: int
  pvc_selector :: "labelSelector option"

record volumeOptions =
  PVName :: string
  PersistentVolumeReclaimPolicy :: string
  Parameters :: options
  PVC :: persistentVolumeClaim

record flexVolume =
  fv_driver :: string
  fv_secretRef :: "string option"
  fv_options :: options

record persistentVolume =
  pv_name :: string
  pv_annotations :: options
  pv_labels :: "options option"
  pv_reclaimPolicy :: string
  pv_accessModes :: "accessMode list"
  pv_capacity :: int
  pv_flexVolume :: "flexVolume option"
  pv_claimRef :: "string option"

section \<open>The provisioner with finalizers\<close>

definition provisionerDir :: string where
  "provisionerDir = ''/export/virtuozzo-provisioner/''"

definition mountDir :: string where
  "mountDir = provisionerDir @ ''mnt/''"

definition prepareVstorage :: "env \<Rightarrow> options \<Rightarrow> string \<Rightarrow> string \<Rightarrow> world \<Rightarrow> error option \<times> world" where
  "prepareVstorage env options clusterName clusterPassword w =
     (let mount = mountDir @ clusterName;
          (mounted, w) = vstorage_IsVstorage mount w
      in if mounted then (None, w)
         else (case os_MkdirAll env mount w of
                 (Some err, w) \<Rightarrow> (Some err, w)
               | (None, w) \<Rightarrow>
                   (let (p, w) = vstorage_Mountpoint clusterName w
                    in if p \<noteq> [] then syscall_Mount env p mount w
                       else (case vstorage_Auth env clusterName clusterPassword w of
                               (Some err, w) \<Rightarrow> (Some err, w)
                             | (None, w) \<Rightarrow>
                                 (case vstorage_Mount env clusterName mount w of
                                    (Some err, w) \<Rightarrow> (Some err, w)
                                  | (None, w) \<Rightarrow> (None, w))))))"

text \<open>The first loop of \<open>createPloop\<close>: the options it reads, each empty when missing.\<close>

definition scan_option ::
  "string \<times> string \<times> string \<times> string \<Rightarrow> string \<times> string \<Rightarrow> string \<times> string \<times> string \<times> string" where
  "scan_option acc kv =
     (case acc of (volumePath, deltasPath, volumeID, size') \<Rightarrow>
        (case kv of (k, v) \<Rightarrow>
           if k = ''volumePath'' then (v, deltasPath, volumeID, size')
           else if k = ''deltasPath'' then (volumePath, v, volumeID, size')
           else if k = ''volumeID'' then (volumePath, deltasPath, v, size')
           else if k = ''size'' then (volumePath, deltasPath, volumeID, v)
           else acc))"

definition attr_name :: "string \<Rightarrow> string" where
  "attr_name k =
     (if k = ''vzsReplicas'' then ''replicas''
      else if k = ''vzsTier'' then ''tier''
      else if k = ''vzsEncoding'' then ''encoding''
      else if k = ''vzsFailureDomain'' then ''failure-domain''
      else [])"

text \<open>
  The second loop of \<open>createPloop\<close>: one \<open>vstorage set-attr\<close> for each placement
  option; at the first failure the volume directory is removed (the result of
  \<open>os.RemoveAll\<close> is dropped) and the error is returned.
\<close>

fun set_attrs :: "env \<Rightarrow> string \<Rightarrow> options \<Rightarrow> world \<Rightarrow> error option \<times> world" where
  "set_attrs env ploopPath [] w = (None, w)"
| "set_attrs env ploopPath ((k, v) # kvs) w =
     (let attr = attr_name k
      in if attr \<noteq> [] then
           (case exec_set_attr env ploopPath attr v w of
              (Some err, w) \<Rightarrow>
                (let (_, w) = os_RemoveAll env ploopPath w
                 in (Some (UnableToSet attr v err), w))
            | (None, w) \<Rightarrow> set_attrs env ploopPath kvs w)
         else set_attrs env ploopPath kvs w)"

definition createPloop :: "env \<Rightarrow> string \<Rightarrow> options \<Rightarrow> world \<Rightarrow> error option \<times> world" where
  "createPloop env mount options w =
     (case foldl scan_option ([], [], [], []) options of
        (volumePath, deltasPath, volumeID, size') \<Rightarrow>
          if volumePath = [] then (Some (Errorf ''volumePath isn't specified''), w)
          else let deltasPath = (if deltasPath = [] then volumePath else deltasPath)
          in if volumeID = [] then (Some (Errorf ''volumeID isn't specified''), w)
          else if size' = [] then (Some (Errorf ''size isn't specified''), w)
          else let bytes = fst (ParseBytes env size');
                   volumeSize = bytes div 1024
          in (case os_MkdirAll env (path_Join [mount, deltasPath]) w of
                (Some err, w) \<Rightarrow> (Some err, w)
              | (None, w) \<Rightarrow>
                  (let ploopPath = path_Join [mount, volumePath, lookup options ''volumeID''];
                       deltaPath = path_Join [mount, deltasPath, lookup options ''volumeID'' @ ''.image'']
                   in (case ploop_PloopVolumeCreate env ploopPath volumeSize deltaPath w of
                         (Some err, w) \<Rightarrow> (Some err, w)
                       | (None, w) \<Rightarrow> set_attrs env ploopPath options w))))"

definition patchSecret :: "env \<Rightarrow> secret \<Rightarrow> secret \<Rightarrow> world \<Rightarrow> error option \<times> world" where
  "patchSecret env oldSecret newSecret w =
     (case attempt env (Marshal ''oldSecret'') (\<lambda>w. w) w of
        (Some err, w) \<Rightarrow> (Some err, glog Error ''failed to marshal secret'' w)
      | (None, w) \<Rightarrow>
     (case attempt env (Marshal ''newSecret'') (\<lambda>w. w) w of
        (Some err, w) \<Rightarrow> (Some err, glog Error ''failed to marshal secret patch'' w)
      | (None, w) \<Rightarrow>
     (case attempt env (CreatePatch (secret_name newSecret)) (\<lambda>w. w) w of
        (Some err, w) \<Rightarrow> (Some err, glog Error ''failed to create patch for secret'' w)
      | (None, w) \<Rightarrow>
          (let patchBytes = CreateTwoWayMergePatch (finalizers oldSecret) (finalizers newSecret);
               w = glog Info ''Secret patch'' w
           in Secrets_Patch env (secret_namespace newSecret) (secret_name newSecret) patchBytes w))))"

definition removePloop :: "env \<Rightarrow> string \<Rightarrow> options \<Rightarrow> world \<Rightarrow> error option \<times> world" where
  "removePloop env mount options w =
     (let ploopPath = path_Join [mount, lookup options ''volumePath'', lookup options ''volumeID'']
      in (case ploop_PloopVolumeOpen env ploopPath w of
            (Inl err, w) \<Rightarrow> (Some err, w)
          | (Inr vol, w) \<Rightarrow> ploop_Delete env vol (glog Info ''Delete'' w)))"

definition parentProvisionerAnn :: string where
  "parentProvisionerAnn = ''vzFSParentProvisioner''"

definition vzShareAnn :: string where
  "vzShareAnn = ''vzShare''"

text \<open>The index of the first entry equal to \<open>f\<close> (the loop that stops with \<open>break\<close>); \<open>None\<close> is \<open>-1\<close>.\<close>

fun index_of :: "string list \<Rightarrow> string \<Rightarrow> nat option" where
  "index_of [] f = None"
| "index_of (x # xs) f = (if x = f then Some 0 else map_option Suc (index_of xs f))"

definition Provision :: "env \<Rightarrow> volumeOptions \<Rightarrow> world \<Rightarrow> (error + persistentVolume) \<times> world" where
  "Provision env options w =
     (let modes = pvc_accessModes (PVC options)
      in if modes \<noteq> [] \<and> (length modes \<noteq> 1 \<or> hd modes \<noteq> ReadWriteOnce)
         then (Inl (Errorf ''Virtuozzo flexvolume provisioner supports only ReadWriteOnce access mode''), w)
         else
     (let modes = (if modes = [] then [ReadWriteOnce] else modes);
          bytes = pvc_storage (PVC options)
      in if pvc_selector (PVC options) \<noteq> None
         then (Inl (Errorf ''claim Selector is not supported''), w)
         else
     (let share = ''kubernetes-dynamic-pvc-'' @ pvc_uid (PVC options);
          w = glog Info ''Add'' w;
          storageClassOptions = foldl (\<lambda>m (k, v). set_key m k v) [] (Parameters options);
          storageClassOptions = set_key storageClassOptions ''volumeID'' share;
          storageClassOptions = set_key storageClassOptions ''size'' (Sprintf_d bytes);
          secretName = lookup storageClassOptions ''secretName'';
          storageClassOptions = delete_key storageClassOptions ''secretName''
      in (case Secrets_Get env (pvc_namespace (PVC options)) secretName w of
            (Inl err, w) \<Rightarrow> (Inl err, w)
          | (Inr secret, w) \<Rightarrow>
     (let name = lookup (secret_data secret) ''clusterName'';
          password = lookup (secret_data secret) ''clusterPassword''
      in (case prepareVstorage env storageClassOptions name password w of
            (Some err, w) \<Rightarrow> (Inl err, w)
          | (None, w) \<Rightarrow>
         (case createPloop env (mountDir @ name) storageClassOptions w of
            (Some err, w) \<Rightarrow> (Inl err, w)
          | (None, w) \<Rightarrow>
     (let finalizer = ''virtuozzo.com/'' @ NewUUID env @ ''-pv'';
          storageClassOptions = set_key storageClassOptions ''clusterName'' name;
          storageClassOptions = set_key storageClassOptions ''finalizer'' finalizer;
          pv = \<lparr>pv_name = PVName options,
                pv_annotations = [(parentProvisionerAnn, provisionerID env), (vzShareAnn, share)],
                pv_labels = None,
                pv_reclaimPolicy = PersistentVolumeReclaimPolicy options,
                pv_accessModes = modes,
                pv_capacity = pvc_storage (PVC options),
                pv_flexVolume = Some \<lparr>fv_driver = ''virtuozzo/ploop'',
                                       fv_secretRef = Some secretName,
                                       fv_options = storageClassOptions\<rparr>,
                pv_claimRef = None\<rparr>
      in (case index_of (finalizers secret) finalizer of
            Some idx \<Rightarrow> (Inr pv, glog Info ''successfully created virtuozzo storage share'' w)
          | None \<Rightarrow>
              (let newSecret = secret\<lparr>finalizers := finalizers secret @ [finalizer]\<rparr>
               in (case patchSecret env secret newSecret w of
                     (Some err, w) \<Rightarrow>
                       (let w = glog Error ''Failed to update finalizers in secret'' w
                        in (case removePloop env (mountDir @ name) storageClassOptions w of
                              (Some e, w) \<Rightarrow> (Inl (CleanupError err e), w)
                            | (None, w) \<Rightarrow> (Inl err, w)))
                   | (None, w) \<Rightarrow>
                       (Inr pv, glog Info ''successfully created virtuozzo storage share'' w))))))))))))"

text \<open>
  \<open>append(s[:idx], s[idx+1:]...)\<close> writes into the array of \<open>s\<close>, which has room for
  the shorter result: the result is \<open>s\<close> without the entry at \<open>idx\<close>, and every other
  slice value over the same array, as the \<open>Finalizers\<close> of the secret that was copied
  by \<open>newSecret := *secret\<close>, reads the moved entries followed by the old last ones.
  The pair is the result and what the original slice value reads afterwards.
\<close>

definition delete_at :: "string list \<Rightarrow> nat \<Rightarrow> string list \<times> string list" where
  "delete_at s idx =
     (let new = take idx s @ drop (Suc idx) s in (new, new @ drop (length new) s))"

definition Delete :: "env \<Rightarrow> persistentVolume \<Rightarrow> world \<Rightarrow> error option \<times> world" where
  "Delete env volume w =
     (case map_of (pv_annotations volume) parentProvisionerAnn of
        None \<Rightarrow> (Some (Errorf ''Parent provisioner name annotation not found on PV''), w)
      | Some ann \<Rightarrow>
     if ann \<noteq> provisionerID env
     then (Some (IgnoredError ''parent provisioner name annotation on PV does not match ours''), w)
     else
     (case map_of (pv_annotations volume) vzShareAnn of
        None \<Rightarrow> (Some (Errorf ''vz share annotation not found on PV''), w)
      | Some share \<Rightarrow>
     (case pv_flexVolume volume of
        None \<Rightarrow> (Some NilDereference, w)
      | Some fv \<Rightarrow>
     (case fv_secretRef fv of
        None \<Rightarrow> (Some NilDereference, w)
      | Some secretName \<Rightarrow>
     (let options = fv_options fv
      in (case pv_claimRef volume of
            None \<Rightarrow> (Some NilDereference, w)
          | Some ns \<Rightarrow>
         (case Secrets_Get env ns secretName w of
            (Inl err, w) \<Rightarrow> (Some err, w)
          | (Inr secret, w) \<Rightarrow>
     (let name = lookup (secret_data secret) ''clusterName'';
          password = lookup (secret_data secret) ''clusterPassword'';
          mount = mountDir @ name
      in (case prepareVstorage env options name password w of
            (Some err, w) \<Rightarrow> (Some err, w)
          | (None, w) \<Rightarrow>
         (case removePloop env mount options w of
            (Some err, w) \<Rightarrow> (Some err, w)
          | (None, w) \<Rightarrow>
         (case map_of options ''finalizer'' of
            None \<Rightarrow>
              (None, glog Info ''successfully delete virtuozzo storage share''
                       (glog Warning ''Unable to find finalizer in flexvolume options'' w))
          | Some finalizer \<Rightarrow>
         (case index_of (finalizers secret) finalizer of
            None \<Rightarrow>
              (None, glog Info ''successfully delete virtuozzo storage share''
                       (glog Warning ''Cannot find finalizer in secret'' w))
          | Some idx \<Rightarrow>
              (case delete_at (finalizers secret) idx of
                 (newFinalizers, oldFinalizers) \<Rightarrow>
                   (case patchSecret env (secret\<lparr>finalizers := oldFinalizers\<rparr>)
                           (secret\<lparr>finalizers := newFinalizers\<rparr>) w of
                      (Some err, w) \<Rightarrow>
                        (None, glog Info ''successfully delete virtuozzo storage share''
                                 (glog Warning ''Failed to update finalizers in secret'' w))
                    | (None, w) \<Rightarrow>
                        (None, glog Info ''successfully delete virtuozzo storage share'' w)))))))))))))))"

section \<open>The older provisioner with secrets (part 000 of the unnamed sources)\<close>

text \<open>
  The same \<open>prepareVstorage\<close> and placement loop; the volume directory is made first,
  the image is created last, and the cluster is unmounted again when \<open>Provision\<close> or
  \<open>Delete\<close> returns (\<open>defer syscall.Unmount\<close>). There are no finalizers.
\<close>

definition scan_option_v0 ::
  "string \<times> string \<times> string \<Rightarrow> string \<times> string \<Rightarrow> string \<times> string \<times> string" where
  "scan_option_v0 acc kv =
     (case acc of (volumePath, volumeId, size') \<Rightarrow>
        (case kv of (k, v) \<Rightarrow>
           if k = ''volumePath'' then (v, volumeId, size')
           else if k = ''volumeId'' then (volumePath, v, size')
           else if k = ''size'' then (volumePath, volumeId, v)
           else acc))"

definition createPloop_v0 :: "env \<Rightarrow> string \<Rightarrow> options \<Rightarrow> world \<Rightarrow> error option \<times> world" where
  "createPloop_v0 env mount options w =
     (case foldl scan_option_v0 ([], [], []) options of
        (volumePath, volumeId, size') \<Rightarrow>
          if volumePath = [] then (Some (Errorf ''volumePath isn't specified''), w)
          else if volumeId = [] then (Some (Errorf ''volumeId isn't specified''), w)
          else if size' = [] then (Some (Errorf ''size isn't specified''), w)
          else let bytes = fst (ParseBytes env size');
                   volume_size = bytes div 1024;
                   ploop_path = mount @ ''/'' @ lookup options ''volumePath'' @ ''/''
                                  @ lookup options ''volumeId''
          in (case os_MkdirAll env ploop_path w of
                (Some err, w) \<Rightarrow> (Some err, w)
              | (None, w) \<Rightarrow>
                  (case set_attrs env ploop_path options w of
                     (Some err, w) \<Rightarrow> (Some err, w)
                   | (None, w) \<Rightarrow>
                       ploop_Create env volume_size
                         (ploop_path @ ''/'' @ lookup options ''volumeId'') w)))"

definition Provision_v0 :: "env \<Rightarrow> volumeOptions \<Rightarrow> world \<Rightarrow> (error + persistentVolume) \<times> world" where
  "Provision_v0 env options w =
     (let bytes = pvc_storage (PVC options)
      in if pvc_selector (PVC options) \<noteq> None
         then (Inl (Errorf ''claim Selector is not supported''), w)
         else
     (let share = ''kubernetes-dynamic-pvc-'' @ NewUUID env;
          w = glog Info ''Add'' w;
          storage_class_options = foldl (\<lambda>m (k, v). set_key m k v) [] (Parameters options);
          storage_class_options = set_key storage_class_options ''volumeId'' share;
          storage_class_options = set_key storage_class_options ''size'' (Sprintf_d bytes);
          secretName = lookup storage_class_options ''secretName'';
          storage_class_options = delete_key storage_class_options ''secretName''
      in (case Secrets_Get env (pvc_namespace (PVC options)) secretName w of
            (Inl err, w) \<Rightarrow> (Inl err, w)
          | (Inr secret, w) \<Rightarrow>
     (let name = lookup (secret_data secret) ''clusterName'';
          password = lookup (secret_data secret) ''clusterPassword''
      in (case prepareVstorage env storage_class_options name password w of
            (Some err, w) \<Rightarrow> (Inl err, w)
          | (None, w) \<Rightarrow>
              (let (result, w) =
                     (case createPloop_v0 env (mountDir @ name) storage_class_options w of
                        (Some err, w) \<Rightarrow> (Inl err, w)
                      | (None, w) \<Rightarrow>
                          (Inr \<lparr>pv_name = PVName options,
                                 pv_annotations = [(parentProvisionerAnn, provisionerID env),
                                                   (vzShareAnn, share)],
                                 pv_labels = None,
                                 pv_reclaimPolicy = PersistentVolumeReclaimPolicy options,
                                 pv_accessModes = pvc_accessModes (PVC options),
                                 pv_capacity = pvc_storage (PVC options),
                                 pv_flexVolume = Some \<lparr>fv_driver = ''virtuozzo/ploop'',
                                                        fv_secretRef = Some secretName,
                                                        fv_options = storage_class_options\<rparr>,
                                 pv_claimRef = None\<rparr>,
                           glog Info ''successfully created virtuozzo storage share'' w));
                   (_, w) = syscall_Unmount env (mountDir @ name) w
               in (result, w)))))))"

definition Delete_v0 :: "env \<Rightarrow> persistentVolume \<Rightarrow> world \<Rightarrow> error option \<times> world" where
  "Delete_v0 env volume w =
     (case map_of (pv_annotations volume) parentProvisionerAnn of
        None \<Rightarrow> (Some (Errorf ''Parent provisioner name annotation not found on PV''), w)
      | Some ann \<Rightarrow>
     if ann \<noteq> provisionerID env
     then (Some (IgnoredError ''parent provisioner name annotation on PV does not match ours''), w)
     else
     (case map_of (pv_annotations volume) vzShareAnn of
        None \<Rightarrow> (Some (Errorf ''vz share annotation not found on PV''), w)
      | Some share \<Rightarrow>
     (case pv_flexVolume volume of
        None \<Rightarrow> (Some NilDereference, w)
      | Some fv \<Rightarrow>
     (case fv_secretRef fv of
        None \<Rightarrow> (Some NilDereference, w)
      | Some secretName \<Rightarrow>
     (let options = fv_options fv
      in (case pv_claimRef volume of
            None \<Rightarrow> (Some NilDereference, w)
          | Some ns \<Rightarrow>
         (case Secrets_Get env ns secretName w of
            (Inl err, w) \<Rightarrow> (Some err, w)
          | (Inr secret, w) \<Rightarrow>
     (let name = lookup (secret_data secret) ''clusterName'';
          password = lookup (secret_data secret) ''clusterPassword'';
          mount = mountDir @ name
      in (case prepareVstorage env options name password w of
            (Some err, w) \<Rightarrow> (Some err, w)
          | (None, w) \<Rightarrow>
              (let (result, w) =
                     (let path = mount @ ''/'' @ lookup options ''volumePath'' @ ''/''
                                   @ lookup options ''volumeId'';
                          w = glog Info ''Delete'' w
                      in (case os_RemoveAll env path w of
                            (Some err, w) \<Rightarrow> (Some err, w)
                          | (None, w) \<Rightarrow>
                              (None, glog Info ''successfully delete virtuozzo storage share'' w)));
                   (_, w) = syscall_Unmount env mount w
               in (result, w)))))))))))"

section \<open>The first provisioner (virtuozzo-storage/virtuozzo-provisioner.go)\<close>

text \<open>
  No secrets and no mount: the volume path is used as it is given. \<open>volume.Create\<close> is
  the function of package \<open>volume\<close> (part 005 of the unnamed sources). The identity
  of the provisioner is generated when it starts.
\<close>

definition scan_option_volume ::
  "string \<times> string \<times> string \<Rightarrow> string \<times> string \<Rightarrow> error + string \<times> string \<times> string" where
  "scan_option_volume acc kv =
     (case acc of (volumePath, volumeId, size') \<Rightarrow>
        (case kv of (k, v) \<Rightarrow>
           if k = ''volumePath'' then Inr (v, volumeId, size')
           else if k = ''volumeId'' then Inr (volumePath, v, size')
           else if k = ''size'' then Inr (volumePath, volumeId, v)
           else if k = ''vzsReplicas'' \<or> k = ''vzsTier'' \<or> k = ''kubernetes.io/readwrite''
                   \<or> k = ''kubernetes.io/fsType''
                then Inr acc
           else Inl (Errorf ''Unknown option'')))"

primrec scan_options_volume ::
  "options \<Rightarrow> string \<times> string \<times> string \<Rightarrow> error + string \<times> string \<times> string" where
  "scan_options_volume [] acc = Inr acc"
| "scan_options_volume (kv # kvs) acc =
     (case scan_option_volume acc kv of
        Inl err \<Rightarrow> Inl err
      | Inr acc \<Rightarrow> scan_options_volume kvs acc)"

definition set_attr_volume :: "env \<Rightarrow> string \<Rightarrow> string \<times> string \<Rightarrow> world \<Rightarrow> error option \<times> world" where
  "set_attr_volume env ploop_path kv w =
     (case kv of (k, v) \<Rightarrow>
        if k = ''vzsReplicas'' then exec_set_attr env ploop_path ''replicas'' v w
        else if k = ''vzsTier'' then exec_set_attr env ploop_path ''tier'' v w
        else (None, w))"

primrec set_attrs_volume :: "env \<Rightarrow> string \<Rightarrow> options \<Rightarrow> world \<Rightarrow> error option \<times> world" where
  "set_attrs_volume env ploop_path [] w = (None, w)"
| "set_attrs_volume env ploop_path (kv # kvs) w =
     (case set_attr_volume env ploop_path kv w of
        (Some err, w) \<Rightarrow> (let (_, w) = os_RemoveAll env ploop_path w in (Some err, w))
      | (None, w) \<Rightarrow> set_attrs_volume env ploop_path kvs w)"

definition volume_Create :: "env \<Rightarrow> options \<Rightarrow> world \<Rightarrow> error option \<times> world" where
  "volume_Create env options w =
     (case scan_options_volume options ([], [], []) of
        Inl err \<Rightarrow> (Some err, w)
      | Inr (volumePath, volumeId, size') \<Rightarrow>
          if volumePath = [] then (Some (Errorf ''volumePath isn't specified''), w)
          else if volumeId = [] then (Some (Errorf ''volumeId isn't specified''), w)
          else if size' = [] then (Some (Errorf ''size isn't specified''), w)
          else let bytes = fst (ParseBytes env size');
                   volume_size = bytes div 1024;
                   ploop_path = lookup options ''volumePath'' @ ''/'' @ lookup options ''volumeId''
          in (case os_MkdirAll env ploop_path w of
                (Some err, w) \<Rightarrow> (Some err, w)
              | (None, w) \<Rightarrow>
                  (case set_attrs_volume env ploop_path options w of
                     (Some err, w) \<Rightarrow> (Some err, w)
                   | (None, w) \<Rightarrow>
                       ploop_Create env volume_size
                         (ploop_path @ ''/'' @ lookup options ''volumeId'') w)))"

definition provisionerIDAnn :: string where
  "provisionerIDAnn = ''vzFSProvisionerIdentity''"

primrec parseParameters :: "options \<Rightarrow> string \<Rightarrow> error + string" where
  "parseParameters [] volumePath =
     (if volumePath = [] then Inl (Errorf ''missing volumePath'') else Inr volumePath)"
| "parseParameters (kv # kvs) volumePath =
     (if fst kv = ''volumePath'' then parseParameters kvs (snd kv)
      else Inl (Errorf ''invalid option''))"

text \<open>The loop over the match labels of the claim: placement labels are taken, the others skipped.\<close>

definition is_placement_label :: "string \<Rightarrow> bool" where
  "is_placement_label k = (k = ''vzsReplicas'' \<or> k = ''vzsTier'')"

primrec take_labels :: "options \<Rightarrow> options \<Rightarrow> world \<Rightarrow> options \<times> world" where
  "take_labels [] ploop_options w = (ploop_options, w)"
| "take_labels (kv # kvs) ploop_options w =
     (if is_placement_label (fst kv)
      then take_labels kvs (set_key ploop_options (fst kv) (snd kv)) w
      else take_labels kvs ploop_options (glog Info ''Skip'' w))"

definition Provision_vs :: "env \<Rightarrow> volumeOptions \<Rightarrow> world \<Rightarrow> (error + persistentVolume) \<times> world" where
  "Provision_vs env options w =
     (case parseParameters (Parameters options) [] of
        Inl err \<Rightarrow> (Inl err, w)
      | Inr volumePath \<Rightarrow>
     (let bytes = pvc_storage (PVC options)
      in if (case pvc_selector (PVC options) of
               None \<Rightarrow> False | Some sel \<Rightarrow> matchExpressions sel \<noteq> None)
         then (Inl (Errorf ''claim Selector.matchExpressions is not supported''), w)
         else
     (let share = ''kubernetes-dynamic-pvc-'' @ NewUUID env;
          w = glog Info ''Add'' w;
          labels = (case pvc_selector (PVC options) of
                      None \<Rightarrow> None | Some sel \<Rightarrow> matchLabels sel);
          ploop_options = [(''volumePath'', volumePath), (''volumeId'', share),
                           (''size'', Sprintf_d bytes)];
          (ploop_options, w) = (case labels of
                                  None \<Rightarrow> (ploop_options, w)
                                | Some ls \<Rightarrow> take_labels ls ploop_options w)
      in (case volume_Create env ploop_options w of
            (Some err, w) \<Rightarrow> (Inl err, w)
          | (None, w) \<Rightarrow>
              (Inr \<lparr>pv_name = PVName options,
                     pv_annotations = [(provisionerIDAnn, provisionerID env), (vzShareAnn, share)],
                     pv_labels = labels,
                     pv_reclaimPolicy = PersistentVolumeReclaimPolicy options,
                     pv_accessModes = pvc_accessModes (PVC options),
                     pv_capacity = pvc_storage (PVC options),
                     pv_flexVolume = Some \<lparr>fv_driver = ''jaxxstorm/ploop'',
                                            fv_secretRef = None,
                                            fv_options = ploop_options\<rparr>,
                     pv_claimRef = None\<rparr>,
               glog Info ''successfully created virtuozzo storage share'' w)))))"

definition Delete_vs :: "env \<Rightarrow> persistentVolume \<Rightarrow> world \<Rightarrow> error option \<times> world" where
  "Delete_vs env volume w =
     (case map_of (pv_annotations volume) provisionerIDAnn of
        None \<Rightarrow> (Some (Errorf ''identity annotation not found on PV''), w)
      | Some ann \<Rightarrow>
     if ann \<noteq> provisionerID env
     then (Some (IgnoredError ''identity annotation on PV does not match ours''), w)
     else
     (case map_of (pv_annotations volume) vzShareAnn of
        None \<Rightarrow> (Some (Errorf ''vz share annotation not found on PV''), w)
      | Some share \<Rightarrow>
     (case pv_flexVolume volume of
        None \<Rightarrow> (Some NilDereference, w)
      | Some fv \<Rightarrow>
     (let options = fv_options fv;
          path = lookup options ''volumePath'' @ ''/'' @ lookup options ''volumeId'';
          w = glog Info ''Delete'' w
      in (case os_RemoveAll env path w of
            (Some err, w) \<Rightarrow> (Some err, w)
          | (None, w) \<Rightarrow>
              (None, glog Info ''successfully delete virtuozzo storage share'' w))))))"

section \<open>Observing a run\<close>

text \<open>
  The events a run added to the trace, the call of an event, and the number of mounts
  (of the cluster itself or of a bind mount) that were carried out.
\<close>

definition new_events :: "world \<Rightarrow> world \<Rightarrow> event list" where
  "new_events w w' = drop (length (trace w)) (trace w')"

definition call_of :: "event \<Rightarrow> call" where
  "call_of e = (case e of Done c \<Rightarrow> c | Failed c \<Rightarrow> c)"

definition is_mount :: "event \<Rightarrow> bool" where
  "is_mount e = (case e of Done (VMount _ _) \<Rightarrow> True | Done (BindMount _ _) \<Rightarrow> True | _ \<Rightarrow> False)"

definition mount_count :: "world \<Rightarrow> nat" where
  "mount_count w = length (filter is_mount (trace w))"

definition is_Unmount :: "call \<Rightarrow> bool" where
  "is_Unmount c = (case c of Unmount _ \<Rightarrow> True | _ \<Rightarrow> False)"

definition is_SecretPatch :: "call \<Rightarrow> bool" where
  "is_SecretPatch c = (case c of SecretPatch _ _ _ _ \<Rightarrow> True | _ \<Rightarrow> False)"

definition is_VolumeDelete :: "call \<Rightarrow> bool" where
  "is_VolumeDelete c = (case c of VolumeDelete _ \<Rightarrow> True | _ \<Rightarrow> False)"

definition is_Warning :: "event \<Rightarrow> bool" where
  "is_Warning e = (case e of Done (Glog Warning _) \<Rightarrow> True | _ \<Rightarrow> False)"

text \<open>
  \<open>extends P w w'\<close>: the trace of \<open>w'\<close> is the trace of \<open>w\<close> followed by events that
  all satisfy \<open>P\<close>. The calls of each part of the provisioner: those that mount a
  cluster, those that create a volume, those that remove one, those that patch a
  secret (log lines go with the last two).
\<close>

definition extends :: "(event \<Rightarrow> bool) \<Rightarrow> world \<Rightarrow> world \<Rightarrow> bool" where
  "extends P w w' = (\<exists>es. trace w' = trace w @ es \<and> (\<forall>e \<in> set es. P e))"

definition mount_call :: "call \<Rightarrow> bool" where
  "mount_call c =
     (case c of IsVstorage _ \<Rightarrow> True | MkdirAll _ \<Rightarrow> True | Mountpoint _ \<Rightarrow> True
      | BindMount _ _ \<Rightarrow> True | Auth _ _ \<Rightarrow> True | VMount _ _ \<Rightarrow> True | _ \<Rightarrow> False)"

definition create_call :: "call \<Rightarrow> bool" where
  "create_call c =
     (case c of MkdirAll _ \<Rightarrow> True | VolumeCreate _ _ _ \<Rightarrow> True | SetAttr _ _ _ \<Rightarrow> True
      | RemoveAll _ \<Rightarrow> True | _ \<Rightarrow> False)"

definition remove_call :: "call \<Rightarrow> bool" where
  "remove_call c =
     (case c of VolumeOpen _ \<Rightarrow> True | VolumeDelete _ \<Rightarrow> True | Glog _ _ \<Rightarrow> True | _ \<Rightarrow> False)"

definition patch_call :: "call \<Rightarrow> bool" where
  "patch_call c =
     (case c of Marshal _ \<Rightarrow> True | CreatePatch _ \<Rightarrow> True | SecretPatch _ _ _ _ \<Rightarrow> True
      | _ \<Rightarrow> False)"

definition is_Glog :: "call \<Rightarrow> bool" where
  "is_Glog c = (case c of Glog _ _ \<Rightarrow> True | _ \<Rightarrow> False)"

text \<open>
  \<open>keeps w w'\<close>: from \<open>w\<close> to \<open>w'\<close> no unmount was called, carried out or failed, and
  every path with a cluster mounted on it still has one.
\<close>

definition keeps :: "world \<Rightarrow> world \<Rightarrow> bool" where
  "keeps w w' =
     (extends (\<lambda>e. \<not> is_Unmount (call_of e)) w w'
      \<and> (\<forall>p. map_of (mounts w) p \<noteq> None \<longrightarrow> map_of (mounts w') p \<noteq> None))"

text \<open>The cluster is mounted on its local path, the mount root followed by the cluster name.\<close>

definition mounted :: "world \<Rightarrow> string \<Rightarrow> bool" where
  "mounted w clusterName =
     (map_of (mounts w) (''/export/virtuozzo-provisioner/mnt/'' @ clusterName) \<noteq> None)"

section \<open>Example inputs\<close>

definition env_ok :: env where
  "env_ok = \<lparr>provisionerID = ''vz-1'', NewUUID = ''u-1'', ParseBytes = ParseBytes_spec,
             fails = (\<lambda>c. False)\<rparr>"

definition secret0 :: secret where
  "secret0 = \<lparr>secret_name = ''vz'', secret_namespace = ''ns'',
              secret_data = [(''clusterName'', ''c1''), (''clusterPassword'', ''pw'')],
              finalizers = []\<rparr>"

definition world0 :: world where
  "world0 = \<lparr>files = {}, ploops = Map.empty, mounts = [],
             secrets = [(''ns'', ''vz'') \<mapsto> secret0], trace = []\<rparr>"

text \<open>A volume of another provisioner, with and without the share annotation.\<close>

definition pv_foreign :: persistentVolume where
  "pv_foreign = \<lparr>pv_name = ''pv-1'',
                 pv_annotations = [(''vzFSParentProvisioner'', ''vz-2''),
                                   (''vzFSProvisionerIdentity'', ''vz-2''),
                                   (''vzShare'', ''share-1'')],
                 pv_labels = None, pv_reclaimPolicy = ''Delete'',
                 pv_accessModes = [ReadWriteOnce], pv_capacity = 4096,
                 pv_flexVolume = None, pv_claimRef = None\<rparr>"

definition pv_foreign_no_share :: persistentVolume where
  "pv_foreign_no_share = pv_foreign\<lparr>pv_annotations := [(''vzFSParentProvisioner'', ''vz-2'')]\<rparr>"

definition pv_no_owner :: persistentVolume where
  "pv_no_owner = pv_foreign\<lparr>pv_annotations := [(''vzShare'', ''share-1'')]\<rparr>"

definition pv_own_no_share :: persistentVolume where
  "pv_own_no_share = pv_foreign\<lparr>pv_annotations := [(''vzFSParentProvisioner'', ''vz-1'')]\<rparr>"

text \<open>Claims: for many writers, with a selector, and an ordinary one that names its secret.\<close>

definition claim_rwx :: volumeOptions where
  "claim_rwx = \<lparr>PVName = ''pv-1'', PersistentVolumeReclaimPolicy = ''Delete'',
                Parameters = [(''volumePath'', ''pool'')],
                PVC = \<lparr>pvc_namespace = ''ns'', pvc_uid = ''uid-1'',
                        pvc_accessModes = [ReadWriteMany], pvc_storage = 4096,
                        pvc_selector = None\<rparr>\<rparr>"

definition claim_selector :: volumeOptions where
  "claim_selector = claim_rwx\<lparr>PVC := (PVC claim_rwx)\<lparr>pvc_accessModes := [ReadWriteOnce],
       pvc_selector := Some \<lparr>matchLabels = None, matchExpressions = Some [''tier in (0)'']\<rparr>\<rparr>\<rparr>"

definition claim0 :: volumeOptions where
  "claim0 = \<lparr>PVName = ''pv-1'', PersistentVolumeReclaimPolicy = ''Delete'',
             Parameters = [(''volumePath'', ''pool''), (''secretName'', ''vz'')],
             PVC = \<lparr>pvc_namespace = ''ns'', pvc_uid = ''uid-1'',
                     pvc_accessModes = [ReadWriteOnce], pvc_storage = 4096,
                     pvc_selector = None\<rparr>\<rparr>"

text \<open>
  The volume and the world after \<open>claim0\<close> was provisioned in \<open>world0\<close> with nothing
  failing, and the handle as the controller passes it to \<open>Delete\<close>, bound to its claim.
\<close>

definition pv1 :: persistentVolume where
  "pv1 = \<lparr>pv_name = ''pv-1'',
           pv_annotations = [(''vzFSParentProvisioner'', ''vz-1''),
                             (''vzShare'', ''kubernetes-dynamic-pvc-uid-1'')],
           pv_labels = None, pv_reclaimPolicy = ''Delete'',
           pv_accessModes = [ReadWriteOnce], pv_capacity = 4096,
           pv_flexVolume = Some \<lparr>fv_driver = ''virtuozzo/ploop'', fv_secretRef = Some ''vz'',
             fv_options = [(''volumePath'', ''pool''),
                           (''volumeID'', ''kubernetes-dynamic-pvc-uid-1''),
                           (''size'', ''4096''), (''clusterName'', ''c1''),
                           (''finalizer'', ''virtuozzo.com/u-1-pv'')]\<rparr>,
           pv_claimRef = None\<rparr>"

definition pv1_bound :: persistentVolume where
  "pv1_bound = pv1\<lparr>pv_claimRef := Some ''ns''\<rparr>"

definition world1 :: world where
  "world1 =
     \<lparr>files = {''/export/virtuozzo-provisioner/mnt/c1/pool/kubernetes-dynamic-pvc-uid-1'',
               ''/export/virtuozzo-provisioner/mnt/c1/pool/kubernetes-dynamic-pvc-uid-1.image'',
               ''/export'', ''/export/virtuozzo-provisioner'',
               ''/export/virtuozzo-provisioner/mnt'',
               ''/export/virtuozzo-provisioner/mnt/c1'',
               ''/export/virtuozzo-provisioner/mnt/c1/pool''},
      ploops = [''/export/virtuozzo-provisioner/mnt/c1/pool/kubernetes-dynamic-pvc-uid-1''
                  \<mapsto> (4, ''/export/virtuozzo-provisioner/mnt/c1/pool/kubernetes-dynamic-pvc-uid-1.image'')],
      mounts = [(''/export/virtuozzo-provisioner/mnt/c1'', ''c1'')],
      secrets = [(''ns'', ''vz'') \<mapsto> secret0\<lparr>finalizers := [''virtuozzo.com/u-1-pv'']\<rparr>],
      trace = [Done (Glog Info ''Add''), Done (SecretGet ''ns'' ''vz''),
               Done (IsVstorage ''/export/virtuozzo-provisioner/mnt/c1''),
               Done (MkdirAll ''/export/virtuozzo-provisioner/mnt/c1''),
               Done (Mountpoint ''c1''), Done (Auth ''c1'' ''pw''),
               Done (VMount ''c1'' ''/export/virtuozzo-provisioner/mnt/c1''),
               Done (MkdirAll ''/export/virtuozzo-provisioner/mnt/c1/pool''),
               Done (VolumeCreate
                       ''/export/virtuozzo-provisioner/mnt/c1/pool/kubernetes-dynamic-pvc-uid-1'' 4
                       ''/export/virtuozzo-provisioner/mnt/c1/pool/kubernetes-dynamic-pvc-uid-1.image''),
               Done (Marshal ''oldSecret''), Done (Marshal ''newSecret''),
               Done (CreatePatch ''vz''), Done (Glog Info ''Secret patch''),
               Done (SecretPatch ''ns'' ''vz'' [''virtuozzo.com/u-1-pv''] []),
               Done (Glog Info ''successfully created virtuozzo storage share'')]\<rparr>"

text \<open>
  A second claim on the same secret, and the provisioner at the time it serves it:
  the next UUID.
\<close>

definition claim2 :: volumeOptions where
  "claim2 = claim0\<lparr>PVName := ''pv-2'', PVC := (PVC claim0)\<lparr>pvc_uid := ''uid-2''\<rparr>\<rparr>"

definition env_2 :: env where
  "env_2 = env_ok\<lparr>NewUUID := ''u-2''\<rparr>"

text \<open>The world after the provisioning in which the finalizer is already gone from the secret.\<close>

definition world1_cleared :: world where
  "world1_cleared = world1\<lparr>secrets := [(''ns'', ''vz'') \<mapsto> secret0]\<rparr>"

text \<open>Environments in which the patch of a secret, the deletion of a volume or \<open>set-attr\<close> fails.\<close>

definition is_SetAttr :: "call \<Rightarrow> bool" where
  "is_SetAttr c = (case c of SetAttr _ _ _ \<Rightarrow> True | _ \<Rightarrow> False)"

definition env_no_patch :: env where
  "env_no_patch = env_ok\<lparr>fails := is_SecretPatch\<rparr>"

definition env_no_patch_no_delete :: env where
  "env_no_patch_no_delete = env_ok\<lparr>fails := (\<lambda>c. is_SecretPatch c \<or> is_VolumeDelete c)\<rparr>"

definition env_no_attr :: env where
  "env_no_attr = env_ok\<lparr>fails := is_SetAttr\<rparr>"

text \<open>Options for \<open>createPloop\<close>: a size that does not parse, the size of the spec, a tier.\<close>

definition options_abc :: options where
  "options_abc = [(''volumePath'', ''pool''), (''volumeID'', ''vol-1''), (''volumeId'', ''vol-1''),
                  (''size'', ''abc'')]"

definition options_10G :: options where
  "options_10G = [(''volumePath'', ''pool''), (''volumeID'', ''vol-1''), (''volumeId'', ''vol-1''),
                  (''size'', ''10G'')]"

definition options_tier :: options where
  "options_tier = [(''volumePath'', ''pool''), (''volumeID'', ''vol-1''), (''size'', ''4096''),
                   (''vzsTier'', ''9'')]"

section \<open>Properties\<close>

subsection \<open>Mounting a cluster\<close>

lemmas mount_prims =
  vstorage_IsVstorage_def os_MkdirAll_def vstorage_Mountpoint_def syscall_Mount_def
  vstorage_Auth_def vstorage_Mount_def attempt_def log_event_def

lemma find_mount_Some: "find (\<lambda>(p, c). c = n) ms = Some (p, c) \<Longrightarrow> map_of ms p \<noteq> None"
  by (induction ms) (auto split: if_splits)

lemma prepareVstorage_mounted:
  "prepareVstorage env options c pw w = (None, w1) \<Longrightarrow> map_of (mounts w1) (mountDir @ c) \<noteq> None"
  unfolding prepareVstorage_def mount_prims
  by (auto simp: Let_def split: if_splits prod.splits option.splits dest: find_mount_Some)

lemma prepareVstorage_count:
  "prepareVstorage env options c pw w = (None, w1) \<Longrightarrow>
   mount_count w1 = mount_count w + (if map_of (mounts w) (mountDir @ c) \<noteq> None then 0 else 1)"
  unfolding prepareVstorage_def mount_prims mount_count_def
  by (auto simp: Let_def is_mount_def split: if_splits prod.splits option.splits
           dest: find_mount_Some)

lemma prepareVstorage_again:
  "map_of (mounts w1) (mountDir @ c) \<noteq> None \<Longrightarrow>
   prepareVstorage env' options' c pw' w1 = (None, log_event (Done (IsVstorage (mountDir @ c))) w1)"
  unfolding prepareVstorage_def mount_prims
  by (auto simp: Let_def)

lemma mountDir_eq: "mountDir = ''/export/virtuozzo-provisioner/mnt/''"
  by (simp add: mountDir_def provisionerDir_def)

text \<open>
  C7. When \<open>prepareVstorage\<close> has returned without error, a second call for the same
  cluster finds the cluster mounted on the same path, the mount root followed by the
  cluster name: it only looks at the mount table and returns without error, the
  file system, the mounts, the volumes and the secrets are as they were, and over
  the two calls the cluster was mounted exactly once if it was not mounted before
  (and not at all if it was).
\<close>

theorem prepareVstorage_idempotent:
  assumes "prepareVstorage env options clusterName clusterPassword w = (None, w1)"
  shows "\<exists>w2. prepareVstorage env' options clusterName clusterPassword w1 = (None, w2)
           \<and> trace w2 = trace w1 @ [Done (IsVstorage (''/export/virtuozzo-provisioner/mnt/'' @ clusterName))]
           \<and> files w2 = files w1 \<and> mounts w2 = mounts w1
           \<and> ploops w2 = ploops w1 \<and> secrets w2 = secrets w1
           \<and> mounted w1 clusterName \<and> mounted w2 clusterName
           \<and> mount_count w2 = mount_count w + (if mounted w clusterName then 0 else 1)"
proof -
  have m: "map_of (mounts w1) (mountDir @ clusterName) \<noteq> None"
    using assms by (rule prepareVstorage_mounted)
  have again: "prepareVstorage env' options clusterName clusterPassword w1 =
      (None, log_event (Done (IsVstorage (mountDir @ clusterName))) w1)"
    using m by (rule prepareVstorage_again)
  have cnt: "mount_count w1 = mount_count w + (if mounted w clusterName then 0 else 1)"
    using prepareVstorage_count [OF assms] by (simp add: mounted_def mountDir_eq)
  have same: "mount_count (log_event (Done (IsVstorage (mountDir @ clusterName))) w1) = mount_count w1"
    by (simp add: mount_count_def log_event_def is_mount_def)
  show ?thesis
    using m again cnt same by (simp add: mounted_def mountDir_eq log_event_def)
qed

theorem prepareVstorage_idempotent_witness:
  "prepareVstorage env_ok [] ''c1'' ''pw'' world0
     = (None, snd (prepareVstorage env_ok [] ''c1'' ''pw'' world0))
   \<and> (\<exists>w2. prepareVstorage env_ok [] ''c1'' ''pw'' (snd (prepareVstorage env_ok [] ''c1'' ''pw'' world0))
              = (None, w2)
          \<and> mounts w2 = [(''/export/virtuozzo-provisioner/mnt/c1'', ''c1'')]
          \<and> mount_count w2 = 1)"
proof -
  have first: "prepareVstorage env_ok [] ''c1'' ''pw'' world0
      = (None, snd (prepareVstorage env_ok [] ''c1'' ''pw'' world0))"
    by (simp add: prepareVstorage_def mount_prims env_ok_def world0_def mountDir_eq Let_def)
  have ms: "mounts (snd (prepareVstorage env_ok [] ''c1'' ''pw'' world0))
      = [(''/export/virtuozzo-provisioner/mnt/c1'', ''c1'')]"
    by (simp add: prepareVstorage_def mount_prims env_ok_def world0_def mountDir_eq Let_def)
  have cnt: "mount_count world0 = 0" "\<not> mounted world0 ''c1''"
    by (simp_all add: mount_count_def mounted_def world0_def)
  from prepareVstorage_idempotent [OF first, of env_ok] ms cnt first show ?thesis
    by auto
qed

subsection \<open>Evaluating a run\<close>

lemmas path_defs =
  ancestors_def under_def Clean_def clean_elems_def root_of_def is_rooted_def clean_step_def
  path_Join_def upt_rec

lemmas value_defs =
  lookup_def set_key_def delete_key_def Sprintf_d_def show_nat.simps digit_char_def
  ParseBytes_spec_def is_digit_def digits_value_def unit_bytes_def

lemmas call_defs =
  attempt_def log_event_def glog_def os_MkdirAll_def os_RemoveAll_def syscall_Mount_def
  syscall_Unmount_def vstorage_IsVstorage_def vstorage_Mountpoint_def vstorage_Auth_def
  vstorage_Mount_def ploop_PloopVolumeCreate_def ploop_PloopVolumeOpen_def ploop_Delete_def
  ploop_Create_def exec_set_attr_def Secrets_Get_def Secrets_Patch_def
  CreateTwoWayMergePatch_def apply_patch_def

lemmas example_defs =
  env_ok_def world0_def secret0_def mountDir_eq parentProvisionerAnn_def vzShareAnn_def
  provisionerIDAnn_def

subsection \<open>Ownership\<close>

text \<open>
  C4. When the owner annotation of a volume is present and differs from the identity
  of the provisioner, \<open>Delete\<close> returns the ignorable error and the world is as it
  was: no call was made, so nothing was removed, mounted, read or patched. This holds
  for the provisioner with finalizers and for the first provisioner.
\<close>

theorem Delete_not_ours:
  assumes "map_of (pv_annotations volume) parentProvisionerAnn = Some ann"
      and "ann \<noteq> provisionerID env"
      and "map_of (pv_annotations volume') provisionerIDAnn = Some ann'"
      and "ann' \<noteq> provisionerID env"
  shows "\<exists>msg msg'. Delete env volume w = (Some (IgnoredError msg), w)
           \<and> Delete_vs env volume' w = (Some (IgnoredError msg'), w)"
  using assms by (simp add: Delete_def Delete_vs_def)

theorem Delete_not_ours_witness:
  "map_of (pv_annotations pv_foreign) parentProvisionerAnn = Some ''vz-2''
   \<and> map_of (pv_annotations pv_foreign) provisionerIDAnn = Some ''vz-2''
   \<and> ''vz-2'' \<noteq> provisionerID env_ok
   \<and> (\<exists>msg msg'. Delete env_ok pv_foreign world0 = (Some (IgnoredError msg), world0)
           \<and> Delete_vs env_ok pv_foreign world0 = (Some (IgnoredError msg'), world0))"
proof -
  have a: "map_of (pv_annotations pv_foreign) parentProvisionerAnn = Some ''vz-2''"
    by (simp add: pv_foreign_def parentProvisionerAnn_def)
  have b: "map_of (pv_annotations pv_foreign) provisionerIDAnn = Some ''vz-2''"
    by (simp add: pv_foreign_def provisionerIDAnn_def)
  have c: "''vz-2'' \<noteq> provisionerID env_ok"
    by (simp add: env_ok_def)
  from Delete_not_ours [OF a c b c, of world0] a b c show ?thesis by simp
qed

text \<open>
  C10, as stated, fails: a volume without the share annotation whose owner annotation
  names another provisioner gets the ignorable error, since the owner is compared
  before the share annotation is looked for.
\<close>

theorem Delete_missing_share_counterexample:
  "map_of (pv_annotations pv_foreign_no_share) vzShareAnn = None
   \<and> Delete env_ok pv_foreign_no_share world0
       = (Some (IgnoredError ''parent provisioner name annotation on PV does not match ours''), world0)
   \<and> Delete_v0 env_ok pv_foreign_no_share world0
       = (Some (IgnoredError ''parent provisioner name annotation on PV does not match ours''), world0)"
  by (simp add: Delete_def Delete_v0_def pv_foreign_no_share_def pv_foreign_def env_ok_def
        parentProvisionerAnn_def vzShareAnn_def)

text \<open>
  C10, amended. When a volume has no owner annotation, or has the owner annotation of
  this provisioner and no share annotation, \<open>Delete\<close> returns a plain error, not the
  ignorable one, and the world is as it was. This holds for the provisioner with
  finalizers and for the older provisioner with secrets.
\<close>

theorem Delete_missing_annotation:
  assumes "map_of (pv_annotations volume) parentProvisionerAnn = None
           \<or> (map_of (pv_annotations volume) parentProvisionerAnn = Some (provisionerID env)
               \<and> map_of (pv_annotations volume) vzShareAnn = None)"
  shows "\<exists>msg. Delete env volume w = (Some (Errorf msg), w)
           \<and> Delete_v0 env volume w = (Some (Errorf msg), w)"
  using assms by (auto simp: Delete_def Delete_v0_def)

theorem Delete_missing_annotation_witness:
  "map_of (pv_annotations pv_no_owner) parentProvisionerAnn = None
   \<and> (\<exists>msg. Delete env_ok pv_no_owner world0 = (Some (Errorf msg), world0)
           \<and> Delete_v0 env_ok pv_no_owner world0 = (Some (Errorf msg), world0))
   \<and> map_of (pv_annotations pv_own_no_share) parentProvisionerAnn = Some (provisionerID env_ok)
   \<and> map_of (pv_annotations pv_own_no_share) vzShareAnn = None
   \<and> (\<exists>msg. Delete env_ok pv_own_no_share world0 = (Some (Errorf msg), world0)
           \<and> Delete_v0 env_ok pv_own_no_share world0 = (Some (Errorf msg), world0))"
proof -
  have a: "map_of (pv_annotations pv_no_owner) parentProvisionerAnn = None"
    by (simp add: pv_no_owner_def pv_foreign_def parentProvisionerAnn_def)
  have b: "map_of (pv_annotations pv_own_no_share) parentProvisionerAnn = Some (provisionerID env_ok)
           \<and> map_of (pv_annotations pv_own_no_share) vzShareAnn = None"
    by (simp add: pv_own_no_share_def pv_foreign_def parentProvisionerAnn_def vzShareAnn_def
          env_ok_def)
  from Delete_missing_annotation [of pv_no_owner env_ok world0]
       Delete_missing_annotation [of pv_own_no_share env_ok world0] a b
  show ?thesis by simp
qed

subsection \<open>Admission of requests\<close>

text \<open>
  C9, as stated, fails for the first provisioner: it does not look at the access modes,
  and a claim for many writers gets its directory and its volume.
\<close>

theorem Provision_vs_counterexample:
  "pvc_accessModes (PVC claim_rwx) = [ReadWriteMany]
   \<and> \<not> isl (fst (Provision_vs env_ok claim_rwx world0))
   \<and> Done (MkdirAll ''pool/kubernetes-dynamic-pvc-u-1'')
       \<in> set (trace (snd (Provision_vs env_ok claim_rwx world0)))
   \<and> ''pool/kubernetes-dynamic-pvc-u-1'' \<in> files (snd (Provision_vs env_ok claim_rwx world0))"
  by (simp add: Provision_vs_def volume_Create_def scan_option_volume_def set_attr_volume_def
        claim_rwx_def path_defs value_defs call_defs example_defs Let_def
        cong: prod.case_cong_weak let_weak_cong)

lemma parseParameters_Inl: "parseParameters ps v = Inl a \<Longrightarrow> \<exists>msg. a = Errorf msg"
  by (induction ps arbitrary: v) (auto split: if_splits)

text \<open>
  C9, amended. The provisioner with finalizers rejects a claim whose access modes are
  neither empty nor exactly \<open>ReadWriteOnce\<close>, and a claim with any selector, with a plain
  error and before any call: the world is as it was. The first provisioner rejects in
  the same way a claim whose selector has match expressions; it has no check of the
  access modes.
\<close>

theorem Provision_admission:
  "((pvc_accessModes (PVC options) \<noteq> [] \<and> pvc_accessModes (PVC options) \<noteq> [ReadWriteOnce])
      \<or> pvc_selector (PVC options) \<noteq> None
    \<longrightarrow> (\<exists>msg. Provision env options w = (Inl (Errorf msg), w)))
   \<and> ((\<exists>sel. pvc_selector (PVC options) = Some sel \<and> matchExpressions sel \<noteq> None)
    \<longrightarrow> (\<exists>msg. Provision_vs env options w = (Inl (Errorf msg), w)))"
proof (intro conjI impI)
  assume h: "(pvc_accessModes (PVC options) \<noteq> [] \<and> pvc_accessModes (PVC options) \<noteq> [ReadWriteOnce])
      \<or> pvc_selector (PVC options) \<noteq> None"
  show "\<exists>msg. Provision env options w = (Inl (Errorf msg), w)"
  proof (cases "pvc_accessModes (PVC options) \<noteq> []
                \<and> pvc_accessModes (PVC options) \<noteq> [ReadWriteOnce]")
    case True
    then have "length (pvc_accessModes (PVC options)) \<noteq> 1
               \<or> hd (pvc_accessModes (PVC options)) \<noteq> ReadWriteOnce"
      by (cases "pvc_accessModes (PVC options)") auto
    with True show ?thesis by (simp add: Provision_def)
  next
    case False
    with h have "pvc_selector (PVC options) \<noteq> None" by blast
    then show ?thesis by (auto simp: Provision_def Let_def)
  qed
next
  assume "\<exists>sel. pvc_selector (PVC options) = Some sel \<and> matchExpressions sel \<noteq> None"
  then show "\<exists>msg. Provision_vs env options w = (Inl (Errorf msg), w)"
    by (cases "parseParameters (Parameters options) []")
       (auto simp: Provision_vs_def Let_def dest: parseParameters_Inl)
qed

theorem Provision_admission_witness:
  "pvc_accessModes (PVC claim_rwx) \<noteq> [] \<and> pvc_accessModes (PVC claim_rwx) \<noteq> [ReadWriteOnce]
   \<and> (\<exists>msg. Provision env_ok claim_rwx world0 = (Inl (Errorf msg), world0))
   \<and> (\<exists>sel. pvc_selector (PVC claim_selector) = Some sel \<and> matchExpressions sel \<noteq> None)
   \<and> (\<exists>msg. Provision env_ok claim_selector world0 = (Inl (Errorf msg), world0))
   \<and> (\<exists>msg. Provision_vs env_ok claim_selector world0 = (Inl (Errorf msg), world0))"
proof -
  have a: "pvc_accessModes (PVC claim_rwx) \<noteq> []
           \<and> pvc_accessModes (PVC claim_rwx) \<noteq> [ReadWriteOnce]"
    by (simp add: claim_rwx_def)
  have b: "\<exists>sel. pvc_selector (PVC claim_selector) = Some sel \<and> matchExpressions sel \<noteq> None"
    by (simp add: claim_selector_def claim_rwx_def)
  then have c: "pvc_selector (PVC claim_selector) \<noteq> None" by auto
  from Provision_admission [of claim_rwx env_ok world0]
       Provision_admission [of claim_selector env_ok world0] a b c
  show ?thesis by blast
qed

subsection \<open>What each part of a run does\<close>


lemma new_events_append: "trace w' = trace w @ es \<Longrightarrow> new_events w w' = es"
  by (simp add: new_events_def)

lemma extends_refl: "extends P w w"
  by (simp add: extends_def)

lemma extends_trans: "extends P w w1 \<Longrightarrow> extends P w1 w2 \<Longrightarrow> extends P w w2"
  by (auto simp: extends_def)

lemma extends_mono: "extends P w w' \<Longrightarrow> (\<And>e. P e \<Longrightarrow> Q e) \<Longrightarrow> extends Q w w'"
  by (auto simp: extends_def)

lemma extends_new: "extends P w w' \<Longrightarrow> trace w' = trace w @ new_events w w' \<and> (\<forall>e \<in> set (new_events w w'). P e)"
  by (auto simp: extends_def new_events_def)

lemma prepareVstorage_effect:
  "prepareVstorage env options c pw w = (r, w') \<Longrightarrow>
     extends (\<lambda>e. mount_call (call_of e)) w w'
     \<and> secrets w' = secrets w \<and> ploops w' = ploops w
     \<and> (\<forall>p. map_of (mounts w) p \<noteq> None \<longrightarrow> map_of (mounts w') p \<noteq> None)
     \<and> (r = None \<longrightarrow> map_of (mounts w') (mountDir @ c) \<noteq> None)"
  unfolding prepareVstorage_def mount_prims extends_def
  by (auto simp: Let_def mount_call_def call_of_def split: if_splits prod.splits option.splits
           dest: find_mount_Some)

lemma set_attrs_effect:
  "set_attrs env p kvs w = (r, w') \<Longrightarrow>
     extends (\<lambda>e. create_call (call_of e)) w w'
     \<and> secrets w' = secrets w \<and> mounts w' = mounts w
     \<and> (r = None \<longrightarrow> files w' = files w \<and> ploops w' = ploops w)"
proof (induction kvs arbitrary: w)
  case Nil
  then show ?case by (simp add: extends_def)
next
  case (Cons kv kvs)
  obtain k v where kv: "kv = (k, v)" by (cases kv)
  show ?case
  proof (cases "attr_name k = []")
    case True
    with Cons kv show ?thesis by simp
  next
    case False
    show ?thesis
    proof (cases "fails env (SetAttr p (attr_name k) v)")
      case True
      with Cons.prems kv False show ?thesis
        by (auto simp: exec_set_attr_def os_RemoveAll_def attempt_def log_event_def extends_def
              create_call_def call_of_def Let_def split: if_splits)
    next
      case f: False
      let ?w1 = "log_event (Done (SetAttr p (attr_name k) v)) w"
      from Cons.prems kv False f have "set_attrs env p kvs ?w1 = (r, w')"
        by (simp add: exec_set_attr_def attempt_def)
      from Cons.IH [OF this] show ?thesis
        by (auto simp: extends_def log_event_def create_call_def call_of_def)
    qed
  qed
qed


lemma attempt_cases:
  assumes "attempt env c eff w = (r, w')"
  obtains (failed) "fails env c" "r = Some (CallError c)" "w' = log_event (Failed c) w"
        | (succeeded) "\<not> fails env c" "r = None" "w' = log_event (Done c) (eff w)"
  using assms by (auto simp: attempt_def split: if_splits)

lemma createPloop_effect:
  assumes run: "createPloop env mount options w = (r, w')"
  shows "extends (\<lambda>e. create_call (call_of e)) w w'
     \<and> secrets w' = secrets w \<and> mounts w' = mounts w
     \<and> (r = None \<longrightarrow>
          (\<exists>volumePath deltasPath volumeID size'.
             foldl scan_option ([], [], [], []) options = (volumePath, deltasPath, volumeID, size')
             \<and> size' \<noteq> []
             \<and> (let p = path_Join [mount, volumePath, lookup options ''volumeID''];
                     img = path_Join [mount, if deltasPath = [] then volumePath else deltasPath,
                                      lookup options ''volumeID'' @ ''.image''];
                     sz = fst (ParseBytes env size') div 1024
                 in Done (VolumeCreate p sz img) \<in> set (new_events w w')
                    \<and> ploops w' (Clean p) = Some (sz, Clean img)
                    \<and> Clean p \<in> files w' \<and> Clean img \<in> files w')))"
proof -
  obtain volumePath deltasPath volumeID size' where
    scan: "foldl scan_option ([], [], [], []) options = (volumePath, deltasPath, volumeID, size')"
    by (metis prod_cases4)
  show ?thesis
  proof (cases "volumePath = [] \<or> volumeID = [] \<or> size' = []")
    case True
    with run scan have "w' = w" "r \<noteq> None"
      by (auto simp: createPloop_def Let_def split: if_splits)
    then show ?thesis by (auto simp: extends_def)
  next
    case False
    define dp where "dp = (if deltasPath = [] then volumePath else deltasPath)"
    define p where "p = path_Join [mount, volumePath, lookup options ''volumeID'']"
    define img where "img = path_Join [mount, dp, lookup options ''volumeID'' @ ''.image'']"
    define sz where "sz = fst (ParseBytes env size') div 1024"
    obtain r1 w1 where mk: "os_MkdirAll env (path_Join [mount, dp]) w = (r1, w1)"
      by (cases "os_MkdirAll env (path_Join [mount, dp]) w")
    show ?thesis
    proof (cases r1)
      case (Some err)
      with run scan False mk have "r = Some err" "w' = w1"
        by (auto simp: createPloop_def Let_def dp_def)
      with mk Some show ?thesis
        by (auto simp: os_MkdirAll_def extends_def create_call_def call_of_def log_event_def
              elim!: attempt_cases)
    next
      case None
      from mk None have w1: "w1 = log_event (Done (MkdirAll (path_Join [mount, dp])))
             (w\<lparr>files := files w \<union> set (ancestors (path_Join [mount, dp]))\<rparr>)"
        by (auto simp: os_MkdirAll_def elim!: attempt_cases)
      obtain r2 w2 where cr: "ploop_PloopVolumeCreate env p sz img w1 = (r2, w2)"
        by (cases "ploop_PloopVolumeCreate env p sz img w1")
      show ?thesis
      proof (cases r2)
        case (Some err)
        with run scan False mk None cr have "r = Some err" "w' = w2"
          by (auto simp: createPloop_def Let_def dp_def p_def img_def sz_def)
        with cr Some w1 show ?thesis
          by (auto simp: ploop_PloopVolumeCreate_def extends_def create_call_def call_of_def
                log_event_def elim!: attempt_cases)
      next
        case n2: None
        from cr n2 have w2: "w2 = log_event (Done (VolumeCreate p sz img))
             (w1\<lparr>files := files w1 \<union> {Clean p, Clean img},
                  ploops := (ploops w1)(Clean p \<mapsto> (sz, Clean img))\<rparr>)"
          by (auto simp: ploop_PloopVolumeCreate_def elim!: attempt_cases)
        from run scan False mk None cr n2 have sa: "set_attrs env p options w2 = (r, w')"
          by (auto simp: createPloop_def Let_def dp_def p_def img_def sz_def)
        from set_attrs_effect [OF sa] obtain es where
          es: "trace w' = trace w2 @ es" "\<forall>e \<in> set es. create_call (call_of e)"
          and fr: "secrets w' = secrets w2" "mounts w' = mounts w2"
          and ok: "r = None \<longrightarrow> files w' = files w2 \<and> ploops w' = ploops w2"
          by (auto simp: extends_def)
        have tr: "trace w' = trace w @ [Done (MkdirAll (path_Join [mount, dp])),
                                        Done (VolumeCreate p sz img)] @ es"
          using es w1 w2 by (simp add: log_event_def)
        have ext: "extends (\<lambda>e. create_call (call_of e)) w w'"
          unfolding extends_def using tr es(2)
          by (intro exI [of _ "[Done (MkdirAll (path_Join [mount, dp])),
                                Done (VolumeCreate p sz img)] @ es"])
             (auto simp: create_call_def call_of_def)
        have new: "Done (VolumeCreate p sz img) \<in> set (new_events w w')"
          using tr by (simp add: new_events_def)
        have frame: "secrets w' = secrets w" "mounts w' = mounts w"
          using fr w1 w2 by (simp_all add: log_event_def)
        have vol: "r = None \<longrightarrow> ploops w' (Clean p) = Some (sz, Clean img)
                     \<and> Clean p \<in> files w' \<and> Clean img \<in> files w'"
          using ok w2 by (simp add: log_event_def)
        from False have "size' \<noteq> []" by simp
        with ext frame new vol scan show ?thesis
          by (simp add: Let_def p_def img_def sz_def dp_def)
      qed
    qed
  qed
qed

lemma removePloop_effect:
  assumes run: "removePloop env mount options w = (r, w')"
  defines "p \<equiv> path_Join [mount, lookup options ''volumePath'', lookup options ''volumeID'']"
  shows "extends (\<lambda>e. remove_call (call_of e)) w w'
     \<and> secrets w' = secrets w \<and> mounts w' = mounts w
     \<and> (Done (VolumeOpen p) \<in> set (new_events w w') \<or> Failed (VolumeOpen p) \<in> set (new_events w w'))
     \<and> (r \<noteq> None \<longrightarrow> ploops w' = ploops w \<and> files w' = files w
            \<and> (\<forall>q. Done (VolumeDelete q) \<notin> set (new_events w w')))
     \<and> (r = None \<longrightarrow> Done (VolumeDelete p) \<in> set (new_events w w')
            \<and> ploops w' (Clean p) = None \<and> Clean p \<notin> files w'
            \<and> (\<forall>sz img. ploops w (Clean p) = Some (sz, img) \<longrightarrow> img \<notin> files w'))"
proof (cases "fails env (VolumeOpen p) \<or> ploops w (Clean p) = None")
  case True
  with run have "r = Some (CallError (VolumeOpen p))" "w' = log_event (Failed (VolumeOpen p)) w"
    by (auto simp: removePloop_def ploop_PloopVolumeOpen_def p_def Let_def)
  then show ?thesis
    by (auto simp: extends_def new_events_def log_event_def remove_call_def call_of_def)
next
  case False
  let ?w1 = "glog Info ''Delete'' (log_event (Done (VolumeOpen p)) w)"
  from run False have del: "ploop_Delete env p ?w1 = (r, w')"
    by (auto simp: removePloop_def ploop_PloopVolumeOpen_def p_def Let_def)
  then show ?thesis
    unfolding ploop_Delete_def
  proof (cases rule: attempt_cases)
    case failed
    then show ?thesis
      by (auto simp: extends_def new_events_def log_event_def glog_def remove_call_def call_of_def)
  next
    case succeeded
    then show ?thesis
      by (auto simp: extends_def new_events_def log_event_def glog_def remove_call_def
            call_of_def under_def)
  qed
qed

lemma patchSecret_effect:
  assumes run: "patchSecret env oldSecret newSecret w = (r, w')"
  shows "extends (\<lambda>e. patch_call (call_of e) \<or> is_Glog (call_of e)) w w'
     \<and> files w' = files w \<and> ploops w' = ploops w \<and> mounts w' = mounts w
     \<and> (r \<noteq> None \<longrightarrow> secrets w' = secrets w
            \<and> (\<exists>c. patch_call c \<and> Failed c \<in> set (new_events w w'))
            \<and> (\<forall>c. patch_call c \<longrightarrow> Done c \<in> set (new_events w w') \<longrightarrow> \<not> is_SecretPatch c))
     \<and> (r = None \<longrightarrow> (\<forall>c. Failed c \<notin> set (new_events w w'))
            \<and> (\<exists>a d. Done (SecretPatch (secret_namespace newSecret) (secret_name newSecret) a d)
                        \<in> set (new_events w w'))
            \<and> (\<exists>s. secrets w (secret_namespace newSecret, secret_name newSecret) = Some s
                   \<and> secrets w' = (secrets w)((secret_namespace newSecret, secret_name newSecret) \<mapsto>
                        s\<lparr>finalizers := apply_patch
                             (CreateTwoWayMergePatch (finalizers oldSecret) (finalizers newSecret))
                             (finalizers s)\<rparr>)))"
  using run unfolding patchSecret_def Secrets_Patch_def attempt_def
  by (auto simp: Let_def extends_def new_events_def log_event_def glog_def patch_call_def
        is_Glog_def is_SecretPatch_def call_of_def split: if_splits option.splits)

lemma Provision_cases:
  fixes options :: volumeOptions and env :: env
  defines "share \<equiv> ''kubernetes-dynamic-pvc-'' @ pvc_uid (PVC options)"
  defines "sco2 \<equiv> set_key (set_key (foldl (\<lambda>m (k, v). set_key m k v) [] (Parameters options))
                      ''volumeID'' share) ''size'' (Sprintf_d (pvc_storage (PVC options)))"
  defines "secretName \<equiv> lookup sco2 ''secretName''"
  defines "sco \<equiv> delete_key sco2 ''secretName''"
  defines "ns \<equiv> pvc_namespace (PVC options)"
  defines "finalizer \<equiv> ''virtuozzo.com/'' @ NewUUID env @ ''-pv''"
  defines "sco' \<equiv> \<lambda>name. set_key (set_key sco ''clusterName'' name) ''finalizer'' finalizer"
  defines "pv \<equiv> \<lambda>name.
             \<lparr>pv_name = PVName options,
              pv_annotations = [(parentProvisionerAnn, provisionerID env), (vzShareAnn, share)],
              pv_labels = None,
              pv_reclaimPolicy = PersistentVolumeReclaimPolicy options,
              pv_accessModes = (if pvc_accessModes (PVC options) = [] then [ReadWriteOnce]
                                else pvc_accessModes (PVC options)),
              pv_capacity = pvc_storage (PVC options),
              pv_flexVolume = Some \<lparr>fv_driver = ''virtuozzo/ploop'',
                                     fv_secretRef = Some secretName,
                                     fv_options = sco' name\<rparr>,
              pv_claimRef = None\<rparr>"
  assumes run: "Provision env options w = (r, w')"
  obtains
    (rejected) msg where "r = Inl (Errorf msg)" "w' = w"
  | (no_secret) err where "r = Inl err"
      "Secrets_Get env ns secretName (glog Info ''Add'' w) = (Inl err, w')"
  | (no_mount) secret w1 err where "r = Inl err"
      "Secrets_Get env ns secretName (glog Info ''Add'' w) = (Inr secret, w1)"
      "prepareVstorage env sco (lookup (secret_data secret) ''clusterName'')
         (lookup (secret_data secret) ''clusterPassword'') w1 = (Some err, w')"
  | (no_volume) secret w1 w2 err where "r = Inl err"
      "Secrets_Get env ns secretName (glog Info ''Add'' w) = (Inr secret, w1)"
      "prepareVstorage env sco (lookup (secret_data secret) ''clusterName'')
         (lookup (secret_data secret) ''clusterPassword'') w1 = (None, w2)"
      "createPloop env (mountDir @ lookup (secret_data secret) ''clusterName'') sco w2 = (Some err, w')"
  | (present) secret w1 w2 w3 where
      "Secrets_Get env ns secretName (glog Info ''Add'' w) = (Inr secret, w1)"
      "prepareVstorage env sco (lookup (secret_data secret) ''clusterName'')
         (lookup (secret_data secret) ''clusterPassword'') w1 = (None, w2)"
      "createPloop env (mountDir @ lookup (secret_data secret) ''clusterName'') sco w2 = (None, w3)"
      "index_of (finalizers secret) finalizer \<noteq> None"
      "r = Inr (pv (lookup (secret_data secret) ''clusterName''))"
      "w' = glog Info ''successfully created virtuozzo storage share'' w3"
  | (patch_failed) secret w1 w2 w3 err w4 e where
      "Secrets_Get env ns secretName (glog Info ''Add'' w) = (Inr secret, w1)"
      "prepareVstorage env sco (lookup (secret_data secret) ''clusterName'')
         (lookup (secret_data secret) ''clusterPassword'') w1 = (None, w2)"
      "createPloop env (mountDir @ lookup (secret_data secret) ''clusterName'') sco w2 = (None, w3)"
      "index_of (finalizers secret) finalizer = None"
      "patchSecret env secret (secret\<lparr>finalizers := finalizers secret @ [finalizer]\<rparr>) w3
         = (Some err, w4)"
      "removePloop env (mountDir @ lookup (secret_data secret) ''clusterName'')
         (sco' (lookup (secret_data secret) ''clusterName''))
         (glog Error ''Failed to update finalizers in secret'' w4) = (e, w')"
      "r = Inl (case e of Some e' \<Rightarrow> CleanupError err e' | None \<Rightarrow> err)"
  | (recorded) secret w1 w2 w3 w4 where
      "Secrets_Get env ns secretName (glog Info ''Add'' w) = (Inr secret, w1)"
      "prepareVstorage env sco (lookup (secret_data secret) ''clusterName'')
         (lookup (secret_data secret) ''clusterPassword'') w1 = (None, w2)"
      "createPloop env (mountDir @ lookup (secret_data secret) ''clusterName'') sco w2 = (None, w3)"
      "index_of (finalizers secret) finalizer = None"
      "patchSecret env secret (secret\<lparr>finalizers := finalizers secret @ [finalizer]\<rparr>) w3
         = (None, w4)"
      "r = Inr (pv (lookup (secret_data secret) ''clusterName''))"
      "w' = glog Info ''successfully created virtuozzo storage share'' w4"
proof -
  note defs = share_def sco2_def secretName_def sco_def ns_def finalizer_def sco'_def pv_def
  show ?thesis
  proof (cases "(pvc_accessModes (PVC options) \<noteq> [] \<and> (length (pvc_accessModes (PVC options)) \<noteq> 1
                   \<or> hd (pvc_accessModes (PVC options)) \<noteq> ReadWriteOnce))
                \<or> pvc_selector (PVC options) \<noteq> None")
    case True
    with run have "\<exists>msg. r = Inl (Errorf msg) \<and> w' = w"
      by (auto simp: Provision_def Let_def split: if_splits)
    then show ?thesis using rejected by blast
  next
    case False
    then have m: "(pvc_accessModes (PVC options) = [] \<or> pvc_accessModes (PVC options) = [ReadWriteOnce])
                  \<and> pvc_selector (PVC options) = None"
      by (cases "pvc_accessModes (PVC options)") auto
    obtain g w1 where get: "Secrets_Get env ns secretName (glog Info ''Add'' w) = (g, w1)"
      by (cases "Secrets_Get env ns secretName (glog Info ''Add'' w)")
    show ?thesis
    proof (cases g)
      case (Inl err)
      with run m get have "r = Inl err" "w' = w1"
        by (auto simp: Provision_def Let_def defs)
      with get Inl show ?thesis using no_secret by blast
    next
      case (Inr secret)
      define name where "name = lookup (secret_data secret) ''clusterName''"
      obtain mr w2 where prep: "prepareVstorage env sco name
         (lookup (secret_data secret) ''clusterPassword'') w1 = (mr, w2)"
        by (cases "prepareVstorage env sco name (lookup (secret_data secret) ''clusterPassword'') w1")
      show ?thesis
      proof (cases mr)
        case (Some err)
        with run m get Inr prep have "r = Inl err" "w' = w2"
          by (auto simp: Provision_def Let_def defs name_def)
        with get Inr prep Some show ?thesis using no_mount by (simp add: name_def)
      next
        case None
        obtain c w3 where cr: "createPloop env (mountDir @ name) sco w2 = (c, w3)"
          by (cases "createPloop env (mountDir @ name) sco w2")
        show ?thesis
        proof (cases c)
          case (Some err)
          with run m get Inr prep None cr have "r = Inl err" "w' = w3"
            by (auto simp: Provision_def Let_def defs name_def)
          with get Inr prep None cr Some show ?thesis using no_volume by (simp add: name_def)
        next
          case n: None
          show ?thesis
          proof (cases "index_of (finalizers secret) finalizer")
            case (Some idx)
            with run m get Inr prep None cr n
            have "r = Inr (pv name)" "w' = glog Info ''successfully created virtuozzo storage share'' w3"
              by (auto simp: Provision_def Let_def defs name_def)
            with get Inr prep None cr n Some show ?thesis using present by (simp add: name_def)
          next
            case i: None
            obtain pr w4 where pa: "patchSecret env secret
                (secret\<lparr>finalizers := finalizers secret @ [finalizer]\<rparr>) w3 = (pr, w4)"
              by (cases "patchSecret env secret
                (secret\<lparr>finalizers := finalizers secret @ [finalizer]\<rparr>) w3")
            show ?thesis
            proof (cases pr)
              case None
              with run m get Inr prep \<open>mr = None\<close> cr n i pa
              have "r = Inr (pv name)" "w' = glog Info ''successfully created virtuozzo storage share'' w4"
                by (auto simp: Provision_def Let_def defs name_def)
              with get Inr prep \<open>mr = None\<close> cr n i pa None show ?thesis
                using recorded by (simp add: name_def)
            next
              case (Some err)
              obtain e w5 where rm: "removePloop env (mountDir @ name) (sco' name)
                  (glog Error ''Failed to update finalizers in secret'' w4) = (e, w5)"
                by (cases "removePloop env (mountDir @ name) (sco' name)
                  (glog Error ''Failed to update finalizers in secret'' w4)")
              with run m get Inr prep \<open>mr = None\<close> cr n i pa Some
              have "r = Inl (case e of Some e' \<Rightarrow> CleanupError err e' | None \<Rightarrow> err)" "w' = w5"
                by (auto simp: Provision_def Let_def defs name_def split: option.splits)
              with get Inr prep \<open>mr = None\<close> cr n i pa Some rm show ?thesis
                using patch_failed by (simp add: name_def)
            qed
          qed
        qed
      qed
    qed
  qed
qed


lemma Delete_cases:
  assumes run: "Delete env volume w = (r, w')"
  obtains
    (refused) err where "r = Some err" "w' = w"
  | (no_secret) fv secretName ns err where
      "map_of (pv_annotations volume) parentProvisionerAnn = Some (provisionerID env)"
      "pv_flexVolume volume = Some fv" "fv_secretRef fv = Some secretName"
      "pv_claimRef volume = Some ns"
      "r = Some err" "Secrets_Get env ns secretName w = (Inl err, w')"
  | (no_mount) fv secretName ns secret w1 err where
      "map_of (pv_annotations volume) parentProvisionerAnn = Some (provisionerID env)"
      "pv_flexVolume volume = Some fv" "fv_secretRef fv = Some secretName"
      "pv_claimRef volume = Some ns"
      "Secrets_Get env ns secretName w = (Inr secret, w1)"
      "r = Some err"
      "prepareVstorage env (fv_options fv) (lookup (secret_data secret) ''clusterName'')
         (lookup (secret_data secret) ''clusterPassword'') w1 = (Some err, w')"
  | (not_removed) fv secretName ns secret w1 w2 err where
      "map_of (pv_annotations volume) parentProvisionerAnn = Some (provisionerID env)"
      "pv_flexVolume volume = Some fv" "fv_secretRef fv = Some secretName"
      "pv_claimRef volume = Some ns"
      "Secrets_Get env ns secretName w = (Inr secret, w1)"
      "prepareVstorage env (fv_options fv) (lookup (secret_data secret) ''clusterName'')
         (lookup (secret_data secret) ''clusterPassword'') w1 = (None, w2)"
      "r = Some err"
      "removePloop env (mountDir @ lookup (secret_data secret) ''clusterName'') (fv_options fv) w2
         = (Some err, w')"
  | (no_token) fv secretName ns secret w1 w2 w3 where
      "map_of (pv_annotations volume) parentProvisionerAnn = Some (provisionerID env)"
      "pv_flexVolume volume = Some fv" "fv_secretRef fv = Some secretName"
      "pv_claimRef volume = Some ns"
      "Secrets_Get env ns secretName w = (Inr secret, w1)"
      "prepareVstorage env (fv_options fv) (lookup (secret_data secret) ''clusterName'')
         (lookup (secret_data secret) ''clusterPassword'') w1 = (None, w2)"
      "removePloop env (mountDir @ lookup (secret_data secret) ''clusterName'') (fv_options fv) w2
         = (None, w3)"
      "map_of (fv_options fv) ''finalizer'' = None"
      "r = None"
      "w' = glog Info ''successfully delete virtuozzo storage share''
              (glog Warning ''Unable to find finalizer in flexvolume options'' w3)"
  | (token_absent) fv secretName ns secret w1 w2 w3 finalizer where
      "map_of (pv_annotations volume) parentProvisionerAnn = Some (provisionerID env)"
      "pv_flexVolume volume = Some fv" "fv_secretRef fv = Some secretName"
      "pv_claimRef volume = Some ns"
      "Secrets_Get env ns secretName w = (Inr secret, w1)"
      "prepareVstorage env (fv_options fv) (lookup (secret_data secret) ''clusterName'')
         (lookup (secret_data secret) ''clusterPassword'') w1 = (None, w2)"
      "removePloop env (mountDir @ lookup (secret_data secret) ''clusterName'') (fv_options fv) w2
         = (None, w3)"
      "map_of (fv_options fv) ''finalizer'' = Some finalizer"
      "index_of (finalizers secret) finalizer = None"
      "r = None"
      "w' = glog Info ''successfully delete virtuozzo storage share''
              (glog Warning ''Cannot find finalizer in secret'' w3)"
  | (patched) fv secretName ns secret w1 w2 w3 finalizer idx pr w4 where
      "map_of (pv_annotations volume) parentProvisionerAnn = Some (provisionerID env)"
      "pv_flexVolume volume = Some fv" "fv_secretRef fv = Some secretName"
      "pv_claimRef volume = Some ns"
      "Secrets_Get env ns secretName w = (Inr secret, w1)"
      "prepareVstorage env (fv_options fv) (lookup (secret_data secret) ''clusterName'')
         (lookup (secret_data secret) ''clusterPassword'') w1 = (None, w2)"
      "removePloop env (mountDir @ lookup (secret_data secret) ''clusterName'') (fv_options fv) w2
         = (None, w3)"
      "map_of (fv_options fv) ''finalizer'' = Some finalizer"
      "index_of (finalizers secret) finalizer = Some idx"
      "patchSecret env (secret\<lparr>finalizers := snd (delete_at (finalizers secret) idx)\<rparr>)
         (secret\<lparr>finalizers := fst (delete_at (finalizers secret) idx)\<rparr>) w3 = (pr, w4)"
      "r = None"
      "w' = glog Info ''successfully delete virtuozzo storage share''
              (case pr of Some err \<Rightarrow> glog Warning ''Failed to update finalizers in secret'' w4
                        | None \<Rightarrow> w4)"
proof (cases "map_of (pv_annotations volume) parentProvisionerAnn = Some (provisionerID env)
              \<and> map_of (pv_annotations volume) vzShareAnn \<noteq> None
              \<and> pv_flexVolume volume \<noteq> None
              \<and> (\<forall>fv. pv_flexVolume volume = Some fv \<longrightarrow> fv_secretRef fv \<noteq> None)
              \<and> pv_claimRef volume \<noteq> None")
  case False
  with run have "\<exists>err. r = Some err \<and> w' = w"
    by (auto simp: Delete_def Let_def split: option.splits if_splits)
  then show ?thesis using refused by blast
next
  case True
  then obtain share fv secretName ns where
    v: "map_of (pv_annotations volume) parentProvisionerAnn = Some (provisionerID env)"
       "map_of (pv_annotations volume) vzShareAnn = Some share"
       "pv_flexVolume volume = Some fv" "fv_secretRef fv = Some secretName"
       "pv_claimRef volume = Some ns"
    by auto
  obtain g w1 where get: "Secrets_Get env ns secretName w = (g, w1)"
    by (cases "Secrets_Get env ns secretName w")
  show ?thesis
  proof (cases g)
    case (Inl err)
    with run v get have "r = Some err" "w' = w1"
      by (auto simp: Delete_def Let_def)
    with v get Inl show ?thesis using no_secret by blast
  next
    case (Inr secret)
    define name where "name = lookup (secret_data secret) ''clusterName''"
    obtain mr w2 where prep: "prepareVstorage env (fv_options fv) name
         (lookup (secret_data secret) ''clusterPassword'') w1 = (mr, w2)"
      by (cases "prepareVstorage env (fv_options fv) name
         (lookup (secret_data secret) ''clusterPassword'') w1")
    show ?thesis
    proof (cases mr)
      case (Some err)
      with run v get Inr prep have "r = Some err" "w' = w2"
        by (auto simp: Delete_def Let_def name_def)
      with v get Inr prep Some show ?thesis using no_mount [of fv secretName ns secret w1 err]
        by (simp add: name_def)
    next
      case None
      obtain rr w3 where rm: "removePloop env (mountDir @ name) (fv_options fv) w2 = (rr, w3)"
        by (cases "removePloop env (mountDir @ name) (fv_options fv) w2")
      show ?thesis
      proof (cases rr)
        case (Some err)
        with run v get Inr prep None rm have "r = Some err" "w' = w3"
          by (auto simp: Delete_def Let_def name_def)
        with v get Inr prep None rm Some show ?thesis
          using not_removed [of fv secretName ns secret w1 w2 err] by (simp add: name_def)
      next
        case n: None
        show ?thesis
        proof (cases "map_of (fv_options fv) ''finalizer''")
          case nf: None
          with run v get Inr prep \<open>mr = None\<close> rm n
          have "r = None" "w' = glog Info ''successfully delete virtuozzo storage share''
              (glog Warning ''Unable to find finalizer in flexvolume options'' w3)"
            by (auto simp: Delete_def Let_def name_def)
          with v get Inr prep \<open>mr = None\<close> rm n nf show ?thesis
            using no_token [of fv secretName ns secret w1 w2 w3] by (simp add: name_def)
        next
          case (Some finalizer)
          show ?thesis
          proof (cases "index_of (finalizers secret) finalizer")
            case ni: None
            with run v get Inr prep \<open>mr = None\<close> rm n Some
            have "r = None" "w' = glog Info ''successfully delete virtuozzo storage share''
                (glog Warning ''Cannot find finalizer in secret'' w3)"
              by (auto simp: Delete_def Let_def name_def)
            with v get Inr prep \<open>mr = None\<close> rm n Some ni show ?thesis
              using token_absent [of fv secretName ns secret w1 w2 w3 finalizer]
              by (simp add: name_def)
          next
            case si: (Some idx)
            obtain pr w4 where pa: "patchSecret env
                (secret\<lparr>finalizers := snd (delete_at (finalizers secret) idx)\<rparr>)
                (secret\<lparr>finalizers := fst (delete_at (finalizers secret) idx)\<rparr>) w3 = (pr, w4)"
              by (cases "patchSecret env
                (secret\<lparr>finalizers := snd (delete_at (finalizers secret) idx)\<rparr>)
                (secret\<lparr>finalizers := fst (delete_at (finalizers secret) idx)\<rparr>) w3")
            with run v get Inr prep \<open>mr = None\<close> rm n Some si
            have "r = None" "w' = glog Info ''successfully delete virtuozzo storage share''
                (case pr of Some err \<Rightarrow> glog Warning ''Failed to update finalizers in secret'' w4
                          | None \<Rightarrow> w4)"
              by (auto simp: Delete_def Let_def name_def split: prod.splits option.splits)
            with v get Inr prep \<open>mr = None\<close> rm n Some si pa show ?thesis
              using patched [of fv secretName ns secret w1 w2 w3 finalizer idx pr w4]
              by (simp add: name_def)
          qed
        qed
      qed
    qed
  qed
qed

subsection \<open>The mount stays\<close>


lemma keeps_refl: "keeps w w"
  by (simp add: keeps_def extends_refl)

lemma keeps_trans: "keeps w w1 \<Longrightarrow> keeps w1 w2 \<Longrightarrow> keeps w w2"
  by (auto simp: keeps_def intro: extends_trans)

lemma keeps_glog: "keeps w (glog s m w)"
  by (auto simp: keeps_def extends_def glog_def log_event_def is_Unmount_def call_of_def)

lemma keeps_Get: "Secrets_Get env ns n w = (g, w') \<Longrightarrow> keeps w w'"
  by (auto simp: keeps_def extends_def Secrets_Get_def log_event_def is_Unmount_def call_of_def
        split: option.splits if_splits)

lemma not_Unmount:
  "mount_call c \<Longrightarrow> \<not> is_Unmount c"
  "create_call c \<Longrightarrow> \<not> is_Unmount c"
  "remove_call c \<Longrightarrow> \<not> is_Unmount c"
  "patch_call c \<Longrightarrow> \<not> is_Unmount c"
  "is_Glog c \<Longrightarrow> \<not> is_Unmount c"
  "patch_call c \<or> is_Glog c \<Longrightarrow> \<not> is_Unmount c"
  by (cases c; simp add: mount_call_def create_call_def remove_call_def patch_call_def
        is_Glog_def is_Unmount_def)+

lemma keeps_prepareVstorage: "prepareVstorage env options c pw w = (r, w') \<Longrightarrow> keeps w w'"
  by (drule prepareVstorage_effect) (auto simp: keeps_def extends_def not_Unmount)

lemma keeps_createPloop: "createPloop env m options w = (r, w') \<Longrightarrow> keeps w w'"
  by (drule createPloop_effect) (auto simp: keeps_def extends_def not_Unmount)

lemma keeps_removePloop: "removePloop env m options w = (r, w') \<Longrightarrow> keeps w w'"
  by (drule removePloop_effect) (auto simp: keeps_def extends_def not_Unmount)

lemma keeps_patchSecret: "patchSecret env old new w = (r, w') \<Longrightarrow> keeps w w'"
  by (drule patchSecret_effect) (auto simp: keeps_def extends_def not_Unmount)

lemma lookup_set_key: "lookup (set_key m k v) k' = (if k' = k then v else lookup m k')"
  by (simp add: lookup_def set_key_def update_conv')

lemma Provision_keeps:
  assumes "Provision env options w = (r, w')"
  shows "keeps w w'
     \<and> (\<forall>pv. r = Inr pv \<longrightarrow>
           (\<exists>fv. pv_flexVolume pv = Some fv
                \<and> map_of (mounts w') (mountDir @ lookup (fv_options fv) ''clusterName'') \<noteq> None))"
  using assms
proof (cases rule: Provision_cases)
  case (rejected msg)
  then show ?thesis by (simp add: keeps_refl)
next
  case (no_secret err)
  then show ?thesis
    by (auto intro: keeps_trans [OF keeps_glog keeps_Get])
next
  case (no_mount secret w1 err)
  then show ?thesis
    by (auto intro: keeps_trans [OF keeps_trans [OF keeps_glog keeps_Get] keeps_prepareVstorage])
next
  case (no_volume secret w1 w2 err)
  then show ?thesis
    by (auto intro: keeps_trans [OF keeps_trans [OF keeps_trans [OF keeps_glog keeps_Get]
          keeps_prepareVstorage] keeps_createPloop])
next
  case (present secret w1 w2 w3)
  have k3: "keeps w w3"
    using present(1-3)
    by (auto intro: keeps_trans [OF keeps_trans [OF keeps_trans [OF keeps_glog keeps_Get]
          keeps_prepareVstorage] keeps_createPloop])
  have m2: "map_of (mounts w2) (mountDir @ lookup (secret_data secret) ''clusterName'') \<noteq> None"
    using prepareVstorage_effect [OF present(2)] by simp
  have m3: "map_of (mounts w3) (mountDir @ lookup (secret_data secret) ''clusterName'') \<noteq> None"
    using createPloop_effect [OF present(3)] m2 by simp
  show ?thesis
    using k3 m3 present(5,6) keeps_trans [OF k3 keeps_glog]
    by (simp add: lookup_set_key glog_def log_event_def)
next
  case (patch_failed secret w1 w2 w3 err w4 e)
  have "keeps w w3"
    using patch_failed(1-3)
    by (auto intro: keeps_trans [OF keeps_trans [OF keeps_trans [OF keeps_glog keeps_Get]
          keeps_prepareVstorage] keeps_createPloop])
  then have "keeps w w'"
    using patch_failed(5,6)
    by (auto intro: keeps_trans [OF keeps_trans [OF keeps_trans [OF _ keeps_patchSecret] keeps_glog]
          keeps_removePloop])
  with patch_failed(7) show ?thesis by simp
next
  case (recorded secret w1 w2 w3 w4)
  have k3: "keeps w w3"
    using recorded(1-3)
    by (auto intro: keeps_trans [OF keeps_trans [OF keeps_trans [OF keeps_glog keeps_Get]
          keeps_prepareVstorage] keeps_createPloop])
  have k4: "keeps w w4"
    using k3 recorded(5) by (auto intro: keeps_trans [OF _ keeps_patchSecret])
  have m2: "map_of (mounts w2) (mountDir @ lookup (secret_data secret) ''clusterName'') \<noteq> None"
    using prepareVstorage_effect [OF recorded(2)] by simp
  have m4: "map_of (mounts w4) (mountDir @ lookup (secret_data secret) ''clusterName'') \<noteq> None"
    using createPloop_effect [OF recorded(3)] patchSecret_effect [OF recorded(5)] m2 by simp
  show ?thesis
    using m4 recorded(6,7) keeps_trans [OF k4 keeps_glog]
    by (simp add: lookup_set_key glog_def log_event_def)
qed

lemma Delete_keeps:
  assumes "Delete env volume w = (r, w')"
  shows "keeps w w'"
  using assms
proof (cases rule: Delete_cases)
  case (refused err)
  then show ?thesis by (simp add: keeps_refl)
next
  case (no_secret fv secretName ns err)
  then show ?thesis by (auto intro: keeps_Get)
next
  case (no_mount fv secretName ns secret w1 err)
  then show ?thesis by (auto intro: keeps_trans [OF keeps_Get keeps_prepareVstorage])
next
  case (not_removed fv secretName ns secret w1 w2 err)
  then show ?thesis
    by (auto intro: keeps_trans [OF keeps_trans [OF keeps_Get keeps_prepareVstorage]
          keeps_removePloop])
next
  case (no_token fv secretName ns secret w1 w2 w3)
  then have "keeps w w3"
    by (auto intro: keeps_trans [OF keeps_trans [OF keeps_Get keeps_prepareVstorage]
          keeps_removePloop])
  with no_token(10) show ?thesis
    by (auto intro: keeps_trans [OF keeps_trans [OF _ keeps_glog] keeps_glog])
next
  case (token_absent fv secretName ns secret w1 w2 w3 finalizer)
  then have "keeps w w3"
    by (auto intro: keeps_trans [OF keeps_trans [OF keeps_Get keeps_prepareVstorage]
          keeps_removePloop])
  with token_absent(11) show ?thesis
    by (auto intro: keeps_trans [OF keeps_trans [OF _ keeps_glog] keeps_glog])
next
  case (patched fv secretName ns secret w1 w2 w3 finalizer idx pr w4)
  then have "keeps w w3"
    by (auto intro: keeps_trans [OF keeps_trans [OF keeps_Get keeps_prepareVstorage]
          keeps_removePloop])
  with patched(10) have "keeps w w4"
    by (auto intro: keeps_trans [OF _ keeps_patchSecret])
  with patched(12) show ?thesis
    by (cases pr) (auto intro: keeps_trans [OF keeps_trans [OF _ keeps_glog] keeps_glog]
                            keeps_trans [OF _ keeps_glog])
qed


lemmas v1_defs =
  Provision_def Delete_def createPloop_def prepareVstorage_def patchSecret_def removePloop_def
  scan_option_def attr_name_def delete_at_def

lemma Provision_claim0: "Provision env_ok claim0 world0 = (Inr pv1, world1)"
  apply (simp add: v1_defs claim0_def pv1_def world1_def path_defs value_defs call_defs
        example_defs Let_def cong: prod.case_cong_weak let_weak_cong)
  apply auto
  done

text \<open>
  C6, as stated, fails for the older provisioner with secrets, which unmounts the
  cluster when \<open>Provision\<close> returns: after a successful \<open>Provision\<close> the unmount was
  carried out and the cluster is not mounted.
\<close>

theorem Provision_v0_counterexample:
  "\<not> isl (fst (Provision_v0 env_ok claim0 world0))
   \<and> Done (Unmount ''/export/virtuozzo-provisioner/mnt/c1'')
       \<in> set (trace (snd (Provision_v0 env_ok claim0 world0)))
   \<and> \<not> mounted (snd (Provision_v0 env_ok claim0 world0)) ''c1''"
  by (simp add: Provision_v0_def createPloop_v0_def prepareVstorage_def scan_option_v0_def
        attr_name_def claim0_def mounted_def path_defs value_defs call_defs example_defs Let_def
        cong: prod.case_cong_weak let_weak_cong)

text \<open>
  C6, amended. In the provisioner with finalizers neither \<open>Provision\<close> nor \<open>Delete\<close> calls
  an unmount: after a successful \<open>Provision\<close> the cluster named in the options of the
  volume is mounted on its local path, and after a later \<open>Delete\<close>, whatever it
  returns, it is still mounted there.
\<close>

theorem Provision_Delete_keep_mount:
  assumes "Provision env options w = (Inr pv, w1)"
      and "Delete env' volume w1 = (r, w2)"
  shows "\<exists>fv. pv_flexVolume pv = Some fv
           \<and> mounted w1 (lookup (fv_options fv) ''clusterName'')
           \<and> mounted w2 (lookup (fv_options fv) ''clusterName'')
           \<and> (\<forall>e \<in> set (new_events w w1). \<not> is_Unmount (call_of e))
           \<and> (\<forall>e \<in> set (new_events w1 w2). \<not> is_Unmount (call_of e))"
proof -
  from Provision_keeps [OF assms(1)] obtain fv where
    k1: "keeps w w1" and fv: "pv_flexVolume pv = Some fv"
    and m1: "map_of (mounts w1) (mountDir @ lookup (fv_options fv) ''clusterName'') \<noteq> None"
    by auto
  from Delete_keeps [OF assms(2)] have k2: "keeps w1 w2" .
  from k2 m1 have m2: "map_of (mounts w2) (mountDir @ lookup (fv_options fv) ''clusterName'') \<noteq> None"
    by (simp add: keeps_def)
  from k1 have n1: "\<forall>e \<in> set (new_events w w1). \<not> is_Unmount (call_of e)"
    by (auto simp: keeps_def dest!: extends_new)
  from k2 have n2: "\<forall>e \<in> set (new_events w1 w2). \<not> is_Unmount (call_of e)"
    by (auto simp: keeps_def dest!: extends_new)
  from fv m1 m2 n1 n2 show ?thesis
    by (auto simp: mounted_def mountDir_eq)
qed

theorem Provision_Delete_keep_mount_witness:
  "Provision env_ok claim0 world0 = (Inr pv1, world1)
   \<and> fst (Delete env_ok pv1_bound world1) = None
   \<and> mounted world1 ''c1''
   \<and> mounted (snd (Delete env_ok pv1_bound world1)) ''c1''"
proof -
  have d: "Delete env_ok pv1_bound world1
             = (fst (Delete env_ok pv1_bound world1), snd (Delete env_ok pv1_bound world1))"
    by simp
  have ok: "fst (Delete env_ok pv1_bound world1) = None"
    by (simp add: v1_defs pv1_bound_def pv1_def world1_def path_defs value_defs call_defs
          example_defs Let_def cong: prod.case_cong_weak let_weak_cong)
  from Provision_Delete_keep_mount [OF Provision_claim0 d] ok Provision_claim0
  show ?thesis by (simp add: pv1_def lookup_def)
qed

subsection \<open>Clearing the obligation\<close>


lemma extends_glog: "P (Done (Glog s m)) \<Longrightarrow> extends P w (glog s m w)"
  by (simp add: extends_def glog_def log_event_def)

lemma Secrets_Get_effect:
  "Secrets_Get env ns n w = (g, w') \<Longrightarrow>
     (trace w' = trace w @ [Done (SecretGet ns n)] \<or> trace w' = trace w @ [Failed (SecretGet ns n)])
     \<and> files w' = files w \<and> ploops w' = ploops w \<and> mounts w' = mounts w
     \<and> secrets w' = secrets w
     \<and> (\<forall>s. g = Inr s \<longrightarrow>
           (\<exists>s0. secrets w (ns, n) = Some s0 \<and> s = s0\<lparr>secret_name := n, secret_namespace := ns\<rparr>))"
  by (auto simp: Secrets_Get_def log_event_def split: option.splits if_splits)

lemma extends_Get:
  "Secrets_Get env ns n w = (g, w') \<Longrightarrow> P (Done (SecretGet ns n)) \<Longrightarrow>
   P (Failed (SecretGet ns n)) \<Longrightarrow> extends P w w'"
  by (drule Secrets_Get_effect) (auto simp: extends_def)

lemma extends_prepareVstorage:
  "prepareVstorage env options c pw w = (r, w') \<Longrightarrow> (\<And>e. mount_call (call_of e) \<Longrightarrow> P e)
   \<Longrightarrow> extends P w w'"
  by (drule prepareVstorage_effect) (auto simp: extends_def)

lemma extends_createPloop:
  "createPloop env m options w = (r, w') \<Longrightarrow> (\<And>e. create_call (call_of e) \<Longrightarrow> P e)
   \<Longrightarrow> extends P w w'"
  by (drule createPloop_effect) (auto simp: extends_def)

lemma extends_removePloop:
  "removePloop env m options w = (r, w') \<Longrightarrow> (\<And>e. remove_call (call_of e) \<Longrightarrow> P e)
   \<Longrightarrow> extends P w w'"
  by (drule removePloop_effect) (auto simp: extends_def)

lemma extends_patchSecret:
  "patchSecret env old new w = (r, w') \<Longrightarrow>
   (\<And>e. patch_call (call_of e) \<or> is_Glog (call_of e) \<Longrightarrow> P e) \<Longrightarrow> extends P w w'"
  by (drule patchSecret_effect) (auto simp: extends_def)

lemma extends_removePloop_failed:
  assumes "removePloop env m options w = (Some err, w')"
  shows "extends (\<lambda>e. remove_call (call_of e) \<and> (\<forall>p. e \<noteq> Done (VolumeDelete p))) w w'"
proof -
  from removePloop_effect [OF assms]
  have e: "extends (\<lambda>e. remove_call (call_of e)) w w'"
    and n: "\<forall>q. Done (VolumeDelete q) \<notin> set (new_events w w')"
    by auto
  from extends_new [OF e] n show ?thesis
    unfolding extends_def by (intro exI [of _ "new_events w w'"]) auto
qed

text \<open>No volume was deleted: the event of a deletion carried out.\<close>

lemma no_delete:
  "mount_call (call_of e) \<Longrightarrow> e \<noteq> Done (VolumeDelete p)"
  "call_of e = SecretGet ns n \<Longrightarrow> e \<noteq> Done (VolumeDelete p)"
  by (auto simp: mount_call_def call_of_def)

lemma no_patch:
  "mount_call c \<Longrightarrow> \<not> is_SecretPatch c"
  "create_call c \<Longrightarrow> \<not> is_SecretPatch c"
  "remove_call c \<Longrightarrow> \<not> is_SecretPatch c"
  "is_Glog c \<Longrightarrow> \<not> is_SecretPatch c"
  by (cases c; simp add: mount_call_def create_call_def remove_call_def is_Glog_def
        is_SecretPatch_def)+

lemma index_of_None: "index_of xs f = None \<longleftrightarrow> f \<notin> set xs"
  by (induction xs) auto


text \<open>
  C8. When \<open>Delete\<close> has removed the volume (so the handle was an owned one, with its
  secret), and the options of the handle hold no finalizer or hold one that is not
  in the list of finalizers of the secret, then \<open>Delete\<close> returns without error
  and has logged a warning; no patch of the secret was attempted and the secrets are
  as they were.
\<close>

theorem Delete_token_absent:
  assumes run: "Delete env volume w = (r, w')"
      and removed: "Done (VolumeDelete p) \<in> set (new_events w w')"
      and absent: "\<forall>fv secretName ns s f.
             pv_flexVolume volume = Some fv \<longrightarrow> fv_secretRef fv = Some secretName \<longrightarrow>
             pv_claimRef volume = Some ns \<longrightarrow> secrets w (ns, secretName) = Some s \<longrightarrow>
             map_of (fv_options fv) ''finalizer'' = Some f \<longrightarrow> f \<notin> set (finalizers s)"
  shows "r = None
       \<and> (\<exists>e \<in> set (new_events w w'). is_Warning e)
       \<and> (\<forall>e \<in> set (new_events w w'). \<not> is_SecretPatch (call_of e))
       \<and> secrets w' = secrets w"
proof -
  let ?nd = "\<lambda>e. \<forall>p. e \<noteq> Done (VolumeDelete p)"
  let ?np = "\<lambda>e. \<not> is_SecretPatch (call_of e)"
  have contra: False if "extends ?nd w w'"
    using extends_new [OF that] removed by auto
  from run show ?thesis
  proof (cases rule: Delete_cases)
    case (refused err)
    then have "extends ?nd w w'" by (simp add: extends_refl)
    then show ?thesis using contra by blast
  next
    case (no_secret fv secretName ns err)
    then have "extends ?nd w w'" by (auto intro: extends_Get)
    then show ?thesis using contra by blast
  next
    case (no_mount fv secretName ns secret w1 err)
    have "extends ?nd w w1" using no_mount(5) by (auto intro: extends_Get)
    moreover have "extends ?nd w1 w'"
      using no_mount(7) by (rule extends_prepareVstorage) (auto simp: mount_call_def call_of_def)
    ultimately have "extends ?nd w w'" by (rule extends_trans)
    then show ?thesis using contra by blast
  next
    case (not_removed fv secretName ns secret w1 w2 err)
    have "extends ?nd w w1" using not_removed(5) by (auto intro: extends_Get)
    moreover have "extends ?nd w1 w2"
      using not_removed(6) by (rule extends_prepareVstorage) (auto simp: mount_call_def call_of_def)
    moreover have "extends ?nd w2 w'"
      using extends_removePloop_failed [OF not_removed(8)] by (rule extends_mono) simp
    ultimately have "extends ?nd w w'" by (blast intro: extends_trans)
    then show ?thesis using contra by blast
  next
    case (no_token fv secretName ns secret w1 w2 w3)
    have e3: "extends ?np w w3"
    proof -
      have "extends ?np w w1" using no_token(5)
        by (rule extends_Get) (simp_all add: call_of_def is_SecretPatch_def)
      moreover have "extends ?np w1 w2"
        using no_token(6) by (rule extends_prepareVstorage) (simp add: no_patch)
      moreover have "extends ?np w2 w3"
        using no_token(7) by (rule extends_removePloop) (simp add: no_patch)
      ultimately show ?thesis by (blast intro: extends_trans)
    qed
    then obtain es where es: "trace w3 = trace w @ es" "\<forall>e \<in> set es. ?np e"
      by (auto simp: extends_def)
    have new: "new_events w w' = es @ [Done (Glog Warning ''Unable to find finalizer in flexvolume options''),
                 Done (Glog Info ''successfully delete virtuozzo storage share'')]"
      using es no_token(10) by (simp add: new_events_def glog_def log_event_def)
    have sec: "secrets w' = secrets w"
      using Secrets_Get_effect [OF no_token(5)] prepareVstorage_effect [OF no_token(6)]
            removePloop_effect [OF no_token(7)] no_token(10)
      by (simp add: glog_def log_event_def)
    show ?thesis
      using new es(2) sec no_token(9)
      by (auto simp: is_Warning_def is_SecretPatch_def call_of_def)
  next
    case (token_absent fv secretName ns secret w1 w2 w3 finalizer)
    have e3: "extends ?np w w3"
    proof -
      have "extends ?np w w1" using token_absent(5)
        by (rule extends_Get) (simp_all add: call_of_def is_SecretPatch_def)
      moreover have "extends ?np w1 w2"
        using token_absent(6) by (rule extends_prepareVstorage) (simp add: no_patch)
      moreover have "extends ?np w2 w3"
        using token_absent(7) by (rule extends_removePloop) (simp add: no_patch)
      ultimately show ?thesis by (blast intro: extends_trans)
    qed
    then obtain es where es: "trace w3 = trace w @ es" "\<forall>e \<in> set es. ?np e"
      by (auto simp: extends_def)
    have new: "new_events w w' = es @ [Done (Glog Warning ''Cannot find finalizer in secret''),
                 Done (Glog Info ''successfully delete virtuozzo storage share'')]"
      using es token_absent(11) by (simp add: new_events_def glog_def log_event_def)
    have sec: "secrets w' = secrets w"
      using Secrets_Get_effect [OF token_absent(5)] prepareVstorage_effect [OF token_absent(6)]
            removePloop_effect [OF token_absent(7)] token_absent(11)
      by (simp add: glog_def log_event_def)
    show ?thesis
      using new es(2) sec token_absent(10)
      by (auto simp: is_Warning_def is_SecretPatch_def call_of_def)
  next
    case (patched fv secretName ns secret w1 w2 w3 finalizer idx pr w4)
    from Secrets_Get_effect [OF patched(5)] obtain s0 where
      s0: "secrets w (ns, secretName) = Some s0" "finalizers secret = finalizers s0"
      by auto
    from patched(9) have "finalizer \<in> set (finalizers secret)"
      using index_of_None [of "finalizers secret" finalizer] by simp
    with absent patched(2-4,8) s0 show ?thesis by auto
  qed
qed

theorem Delete_token_absent_witness:
  "Done (VolumeDelete ''/export/virtuozzo-provisioner/mnt/c1/pool/kubernetes-dynamic-pvc-uid-1'')
     \<in> set (new_events world1_cleared (snd (Delete env_ok pv1_bound world1_cleared)))
   \<and> map_of (fv_options (the (pv_flexVolume pv1_bound))) ''finalizer'' = Some ''virtuozzo.com/u-1-pv''
   \<and> map_option finalizers (secrets world1_cleared (''ns'', ''vz'')) = Some []
   \<and> fst (Delete env_ok pv1_bound world1_cleared) = None
   \<and> (\<exists>e \<in> set (new_events world1_cleared (snd (Delete env_ok pv1_bound world1_cleared))).
          is_Warning e)
   \<and> secrets (snd (Delete env_ok pv1_bound world1_cleared)) = secrets world1_cleared"
proof -
  have run: "Delete env_ok pv1_bound world1_cleared
      = (fst (Delete env_ok pv1_bound world1_cleared), snd (Delete env_ok pv1_bound world1_cleared))"
    by simp
  have removed:
    "Done (VolumeDelete ''/export/virtuozzo-provisioner/mnt/c1/pool/kubernetes-dynamic-pvc-uid-1'')
       \<in> set (new_events world1_cleared (snd (Delete env_ok pv1_bound world1_cleared)))"
    by (simp add: v1_defs pv1_bound_def pv1_def world1_cleared_def world1_def new_events_def
          path_defs value_defs call_defs example_defs Let_def
          cong: prod.case_cong_weak let_weak_cong)
  have absent: "\<forall>fv secretName ns s f.
             pv_flexVolume pv1_bound = Some fv \<longrightarrow> fv_secretRef fv = Some secretName \<longrightarrow>
             pv_claimRef pv1_bound = Some ns \<longrightarrow> secrets world1_cleared (ns, secretName) = Some s \<longrightarrow>
             map_of (fv_options fv) ''finalizer'' = Some f \<longrightarrow> f \<notin> set (finalizers s)"
    by (auto simp: pv1_bound_def pv1_def world1_cleared_def secret0_def)
  have facts: "map_of (fv_options (the (pv_flexVolume pv1_bound))) ''finalizer'' = Some ''virtuozzo.com/u-1-pv''"
    "map_option finalizers (secrets world1_cleared (''ns'', ''vz'')) = Some []"
    by (simp_all add: pv1_bound_def pv1_def world1_cleared_def secret0_def)
  from Delete_token_absent [OF run removed absent] removed facts show ?thesis by simp
qed

subsection \<open>When the obligation cannot be recorded\<close>


lemma distinct_foldl_set_key:
  "distinct (map fst m) \<Longrightarrow> distinct (map fst (foldl (\<lambda>m (k, v). set_key m k v) m ps))"
  by (induction ps arbitrary: m) (auto simp: set_key_def distinct_update)

lemma scan_option_volumePath:
  "distinct (map fst m) \<Longrightarrow>
   fst (foldl scan_option (a, b, c, d) m) = (case map_of m ''volumePath'' of None \<Rightarrow> a | Some v \<Rightarrow> v)"
proof (induction m arbitrary: a b c d)
  case Nil
  then show ?case by simp
next
  case (Cons kv m)
  obtain k v where kv: "kv = (k, v)" by (cases kv)
  from Cons.prems kv have d: "distinct (map fst m)" and k: "k \<notin> fst ` set m" by auto
  show ?case
  proof (cases "k = ''volumePath''")
    case True
    with k have "map_of m ''volumePath'' = None" by (simp add: map_of_eq_None_iff)
    with True kv Cons.IH [OF d, of v b c d] show ?thesis by (simp add: scan_option_def)
  next
    case False
    then show ?thesis
      using kv Cons.IH [OF d, of a b c d] Cons.IH [OF d, of a v c d]
            Cons.IH [OF d, of a b v d] Cons.IH [OF d, of a b c v]
      by (auto simp: scan_option_def)
  qed
qed

lemma no_failed_patch:
  "mount_call (call_of e) \<Longrightarrow> patch_call c \<Longrightarrow> e \<noteq> Failed c"
  "create_call (call_of e) \<Longrightarrow> patch_call c \<Longrightarrow> e \<noteq> Failed c"
  "remove_call (call_of e) \<Longrightarrow> patch_call c \<Longrightarrow> e \<noteq> Failed c"
  "call_of e = SecretGet ns n \<Longrightarrow> patch_call c \<Longrightarrow> e \<noteq> Failed c"
  by (cases c; auto simp: mount_call_def create_call_def remove_call_def patch_call_def call_of_def)+

lemma no_delete_done:
  "mount_call (call_of e) \<Longrightarrow> e \<noteq> Done (VolumeDelete p)"
  "create_call (call_of e) \<Longrightarrow> e \<noteq> Done (VolumeDelete p)"
  "patch_call (call_of e) \<or> is_Glog (call_of e) \<Longrightarrow> e \<noteq> Done (VolumeDelete p)"
  "call_of e = SecretGet ns n \<Longrightarrow> e \<noteq> Done (VolumeDelete p)"
  by (auto simp: mount_call_def create_call_def patch_call_def is_Glog_def call_of_def)


text \<open>
  The error of a \<open>patchSecret\<close> that fails is the one call of it that failed, and
  the calls of \<open>removePloop\<close> in each of its three outcomes.
\<close>

lemma patchSecret_failed:
  assumes run: "patchSecret env oldSecret newSecret w = (Some err, w')"
  shows "\<exists>c. err = CallError c \<and> patch_call c \<and> Failed c \<in> set (new_events w w')
           \<and> (\<forall>c'. Failed c' \<in> set (new_events w w') \<longrightarrow> c' = c)"
  using run unfolding patchSecret_def Secrets_Patch_def attempt_def
  by (auto simp: Let_def new_events_def log_event_def glog_def patch_call_def
        split: if_splits option.splits)

lemma removePloop_events:
  assumes run: "removePloop env mount options w = (r, w')"
  defines "p \<equiv> path_Join [mount, lookup options ''volumePath'', lookup options ''volumeID'']"
  shows "(r = None \<and> new_events w w'
             = [Done (VolumeOpen p), Done (Glog Info ''Delete''), Done (VolumeDelete p)])
       \<or> (r = Some (CallError (VolumeOpen p)) \<and> new_events w w' = [Failed (VolumeOpen p)])
       \<or> (r = Some (CallError (VolumeDelete p)) \<and> new_events w w'
             = [Done (VolumeOpen p), Done (Glog Info ''Delete''), Failed (VolumeDelete p)])"
  using run unfolding removePloop_def ploop_PloopVolumeOpen_def ploop_Delete_def attempt_def p_def
  by (auto simp: Let_def new_events_def log_event_def glog_def split: if_splits)

text \<open>
  C5, as stated, fails: when the patch of the secret fails and the deletion of the
  volume fails as well, \<open>Provision\<close> returns an error and the volume it created is
  still there.
\<close>

theorem Provision_cleanup_counterexample:
  "isl (fst (Provision env_no_patch_no_delete claim0 world0))
   \<and> Failed (SecretPatch ''ns'' ''vz'' [''virtuozzo.com/u-1-pv''] [])
       \<in> set (trace (snd (Provision env_no_patch_no_delete claim0 world0)))
   \<and> Failed (VolumeDelete ''/export/virtuozzo-provisioner/mnt/c1/pool/kubernetes-dynamic-pvc-uid-1'')
       \<in> set (trace (snd (Provision env_no_patch_no_delete claim0 world0)))
   \<and> ploops (snd (Provision env_no_patch_no_delete claim0 world0))
         ''/export/virtuozzo-provisioner/mnt/c1/pool/kubernetes-dynamic-pvc-uid-1''
       = Some (4, ''/export/virtuozzo-provisioner/mnt/c1/pool/kubernetes-dynamic-pvc-uid-1.image'')
   \<and> ''/export/virtuozzo-provisioner/mnt/c1/pool/kubernetes-dynamic-pvc-uid-1''
       \<in> files (snd (Provision env_no_patch_no_delete claim0 world0))"
  by (simp add: v1_defs claim0_def env_no_patch_no_delete_def is_SecretPatch_def
        is_VolumeDelete_def path_defs value_defs call_defs example_defs Let_def
        cong: prod.case_cong_weak let_weak_cong)

text \<open>
  C5, amended. When in a run of \<open>Provision\<close> a call that patches the secret has
  failed, the volume had been created and \<open>removePloop\<close> was called on it, with one
  of three outcomes. The volume was opened and deleted: \<open>Provision\<close> returns the
  error of the patch, and neither the volume, nor its directory, nor its image
  exists afterwards. The volume could not be opened, or it was opened and its
  deletion failed: \<open>Provision\<close> returns the error of the patch together with the
  error of the cleanup, and the volume, its directory and its image are still
  there. In each case \<open>Provision\<close> returns an error and no volume.
\<close>

theorem Provision_patch_failure:
  assumes run: "Provision env options w = (r, w')"
      and failed: "patch_call c" "Failed c \<in> set (new_events w w')"
  shows "\<exists>p sz img.
           Done (VolumeCreate p sz img) \<in> set (new_events w w')
         \<and> (  (Done (VolumeOpen p) \<in> set (new_events w w')
                \<and> Done (VolumeDelete p) \<in> set (new_events w w')
                \<and> r = Inl (CallError c)
                \<and> ploops w' (Clean p) = None \<and> Clean p \<notin> files w' \<and> Clean img \<notin> files w')
            \<or> (Failed (VolumeOpen p) \<in> set (new_events w w')
                \<and> r = Inl (CleanupError (CallError c) (CallError (VolumeOpen p)))
                \<and> ploops w' (Clean p) = Some (sz, Clean img)
                \<and> Clean p \<in> files w' \<and> Clean img \<in> files w')
            \<or> (Done (VolumeOpen p) \<in> set (new_events w w')
                \<and> Failed (VolumeDelete p) \<in> set (new_events w w')
                \<and> r = Inl (CleanupError (CallError c) (CallError (VolumeDelete p)))
                \<and> ploops w' (Clean p) = Some (sz, Clean img)
                \<and> Clean p \<in> files w' \<and> Clean img \<in> files w'))"
proof -
  let ?nf = "\<lambda>e. \<forall>c. patch_call c \<longrightarrow> e \<noteq> Failed c"
  let ?nd = "\<lambda>e. \<forall>p. e \<noteq> Done (VolumeDelete p)"
  have contra: False if "extends ?nf w w'"
    using extends_new [OF that] failed by auto
  have glog_nf: "\<And>s m w. extends ?nf w (glog s m w)"
    by (rule extends_glog) simp
  have get_nf: "\<And>ns n w g w1. Secrets_Get env ns n w = (g, w1) \<Longrightarrow> extends ?nf w w1"
    by (erule extends_Get) (auto simp: patch_call_def)
  have prep_nf: "\<And>opts c pw w r w1. prepareVstorage env opts c pw w = (r, w1) \<Longrightarrow> extends ?nf w w1"
    by (erule extends_prepareVstorage) (auto simp: no_failed_patch)
  have create_nf: "\<And>m opts w r w1. createPloop env m opts w = (r, w1) \<Longrightarrow> extends ?nf w w1"
    by (erule extends_createPloop) (auto simp: no_failed_patch)
  from run show ?thesis
  proof (cases rule: Provision_cases)
    case (rejected msg)
    then have "extends ?nf w w'" by (simp add: extends_refl)
    then show ?thesis using contra by blast
  next
    case (no_secret err)
    have "extends ?nf w w'"
      by (rule extends_trans [OF glog_nf get_nf [OF no_secret(2)]])
    then show ?thesis using contra by blast
  next
    case (no_mount secret w1 err)
    have "extends ?nf w w'"
      by (rule extends_trans [OF extends_trans [OF glog_nf get_nf [OF no_mount(2)]]
            prep_nf [OF no_mount(3)]])
    then show ?thesis using contra by blast
  next
    case (no_volume secret w1 w2 err)
    have "extends ?nf w w'"
      by (rule extends_trans [OF extends_trans [OF extends_trans [OF glog_nf get_nf [OF no_volume(2)]]
            prep_nf [OF no_volume(3)]] create_nf [OF no_volume(4)]])
    then show ?thesis using contra by blast
  next
    case (present secret w1 w2 w3)
    have "extends ?nf w w3"
      by (rule extends_trans [OF extends_trans [OF extends_trans [OF glog_nf get_nf [OF present(1)]]
            prep_nf [OF present(2)]] create_nf [OF present(3)]])
    then have "extends ?nf w w'"
      unfolding present(6) by (rule extends_trans [OF _ glog_nf])
    then show ?thesis using contra by blast
  next
    case (recorded secret w1 w2 w3 w4)
    have "extends ?nf w3 w4"
    proof -
      from patchSecret_effect [OF recorded(5)]
      have e: "extends (\<lambda>e. patch_call (call_of e) \<or> is_Glog (call_of e)) w3 w4"
        and n: "\<forall>c. Failed c \<notin> set (new_events w3 w4)" by auto
      from extends_new [OF e] n show ?thesis
        unfolding extends_def by (intro exI [of _ "new_events w3 w4"]) auto
    qed
    moreover have "extends ?nf w w3"
      by (rule extends_trans [OF extends_trans [OF extends_trans [OF glog_nf get_nf [OF recorded(1)]]
            prep_nf [OF recorded(2)]] create_nf [OF recorded(3)]])
    ultimately have "extends ?nf w w4" by (rule extends_trans [rotated])
    then have "extends ?nf w w'"
      unfolding recorded(7) by (rule extends_trans [OF _ glog_nf])
    then show ?thesis using contra by blast
  next
    case (patch_failed secret w1 w2 w3 err w4 e)
    define name where "name = lookup (secret_data secret) ''clusterName''"
    define sco where "sco = delete_key (set_key (set_key
        (foldl (\<lambda>m (k, v). set_key m k v) [] (Parameters options)) ''volumeID''
        (''kubernetes-dynamic-pvc-'' @ pvc_uid (PVC options))) ''size''
        (Sprintf_d (pvc_storage (PVC options)))) ''secretName''"
    define sco' where "sco' = set_key (set_key sco ''clusterName'' name) ''finalizer''
        (''virtuozzo.com/'' @ NewUUID env @ ''-pv'')"
    define p where "p = path_Join [mountDir @ name, lookup sco ''volumePath'', lookup sco ''volumeID'']"
    define w4' where "w4' = glog Error ''Failed to update finalizers in secret'' w4"
    have dist: "distinct (map fst sco)"
      unfolding sco_def delete_key_def set_key_def
      using distinct_foldl_set_key [of "[]" "Parameters options"]
      by (intro distinct_delete distinct_update) (simp add: set_key_def)
    have cr: "createPloop env (mountDir @ name) sco w2 = (None, w3)"
      using patch_failed(3) by (simp add: name_def sco_def)
    have rm: "removePloop env (mountDir @ name) sco' w4' = (e, w')"
      using patch_failed(6) by (simp add: name_def sco_def sco'_def w4'_def)
    have pa: "patchSecret env secret
                (secret\<lparr>finalizers := finalizers secret @ [''virtuozzo.com/'' @ NewUUID env @ ''-pv'']\<rparr>)
                w3 = (Some err, w4)"
      using patch_failed(5) by simp
    \<comment> \<open>the volume that was created\<close>
    from createPloop_effect [OF cr] obtain volumePath deltasPath volumeID size' where
      scan: "foldl scan_option ([], [], [], []) sco = (volumePath, deltasPath, volumeID, size')"
      and created: "let p = path_Join [mountDir @ name, volumePath, lookup sco ''volumeID''];
                     img = path_Join [mountDir @ name, if deltasPath = [] then volumePath else deltasPath,
                                      lookup sco ''volumeID'' @ ''.image''];
                     sz = fst (ParseBytes env size') div 1024
                 in Done (VolumeCreate p sz img) \<in> set (new_events w2 w3)
                    \<and> ploops w3 (Clean p) = Some (sz, Clean img)
                    \<and> Clean p \<in> files w3 \<and> Clean img \<in> files w3"
      by auto
    have vp: "volumePath = lookup sco ''volumePath''"
      using scan_option_volumePath [OF dist, of "[]" "[]" "[]" "[]"] scan
      by (simp add: lookup_def)
    define img where "img = path_Join [mountDir @ name, if deltasPath = [] then volumePath else deltasPath,
                                      lookup sco ''volumeID'' @ ''.image'']"
    define sz where "sz = fst (ParseBytes env size') div 1024"
    from created vp have c3: "Done (VolumeCreate p sz img) \<in> set (new_events w2 w3)"
      and v3: "ploops w3 (Clean p) = Some (sz, Clean img)"
      and f3: "Clean p \<in> files w3" "Clean img \<in> files w3"
      by (simp_all add: Let_def p_def img_def sz_def)
    have p': "path_Join [mountDir @ name, lookup sco' ''volumePath'', lookup sco' ''volumeID''] = p"
      by (simp add: sco'_def p_def lookup_set_key)
    \<comment> \<open>the traces of the parts\<close>
    from Secrets_Get_effect [OF patch_failed(1)] obtain e1 where
      t1: "trace w1 = trace w @ [Done (Glog Info ''Add''), e1]"
      and c1: "call_of e1 = SecretGet (pvc_namespace (PVC options))
                 (lookup (set_key (set_key (foldl (\<lambda>m (k, v). set_key m k v) [] (Parameters options))
                    ''volumeID'' (''kubernetes-dynamic-pvc-'' @ pvc_uid (PVC options))) ''size''
                    (Sprintf_d (pvc_storage (PVC options)))) ''secretName'')"
      by (auto simp: glog_def log_event_def call_of_def)
    from prepareVstorage_effect [OF patch_failed(2)] obtain es2 where
      t2: "trace w2 = trace w1 @ es2" and c2: "\<forall>e \<in> set es2. mount_call (call_of e)"
      by (auto simp: extends_def)
    from createPloop_effect [OF cr] obtain es3 where
      t3: "trace w3 = trace w2 @ es3" and c3': "\<forall>e \<in> set es3. create_call (call_of e)"
      by (auto simp: extends_def)
    from patchSecret_effect [OF pa] obtain es4 where
      t4: "trace w4 = trace w3 @ es4"
      and c4: "\<forall>e \<in> set es4. patch_call (call_of e) \<or> is_Glog (call_of e)"
      and f4: "files w4 = files w3" "ploops w4 = ploops w3"
      by (auto simp: extends_def)
    from removePloop_effect [OF rm] obtain es5 where
      t5: "trace w' = trace w4' @ es5" and c5: "\<forall>e \<in> set es5. remove_call (call_of e)"
      by (auto simp: extends_def)
    have n23: "new_events w2 w3 = es3" using t3 by (simp add: new_events_def)
    have n45: "new_events w4' w' = es5" using t5 by (simp add: new_events_def)
    have new: "new_events w w' = [Done (Glog Info ''Add''), e1] @ es2 @ es3 @ es4
                 @ [Done (Glog Error ''Failed to update finalizers in secret'')] @ es5"
      using t1 t2 t3 t4 t5 by (simp add: new_events_def w4'_def glog_def log_event_def)
    have created': "Done (VolumeCreate p sz img) \<in> set (new_events w w')"
      using c3 n23 new by simp
    \<comment> \<open>the error of the patch is the failure that was observed\<close>
    from patchSecret_failed [OF pa] obtain c0 where
      c0: "err = CallError c0" "\<forall>c'. Failed c' \<in> set (new_events w3 w4) \<longrightarrow> c' = c0"
      by blast
    have n34: "new_events w3 w4 = es4" using t4 by (simp add: new_events_def)
    have "Failed c \<notin> set es2" using c2 no_failed_patch(1) [OF _ failed(1)] by blast
    moreover have "Failed c \<notin> set es3" using c3' no_failed_patch(2) [OF _ failed(1)] by blast
    moreover have "Failed c \<notin> set es5" using c5 no_failed_patch(3) [OF _ failed(1)] by blast
    moreover have "e1 \<noteq> Failed c" using c1 no_failed_patch(4) [OF _ failed(1)] by blast
    ultimately have "Failed c \<in> set es4" using failed(2) new by auto
    with c0 n34 have err: "err = CallError c" by simp
    \<comment> \<open>the volume when \<open>removePloop\<close> is called\<close>
    have v4: "ploops w4' (Clean p) = Some (sz, Clean img)"
      and f4': "Clean p \<in> files w4'" "Clean img \<in> files w4'"
      using v3 f3 f4 by (simp_all add: w4'_def glog_def log_event_def)
    from removePloop_events [OF rm] p'
    consider
      (removed) "e = None"
        "es5 = [Done (VolumeOpen p), Done (Glog Info ''Delete''), Done (VolumeDelete p)]"
    | (not_opened) "e = Some (CallError (VolumeOpen p))" "es5 = [Failed (VolumeOpen p)]"
    | (not_deleted) "e = Some (CallError (VolumeDelete p))"
        "es5 = [Done (VolumeOpen p), Done (Glog Info ''Delete''), Failed (VolumeDelete p)]"
      using n45 by auto
    then show ?thesis
    proof cases
      case removed
      from removePloop_effect [OF rm] removed(1) p' v4
      have "ploops w' (Clean p) = None" "Clean p \<notin> files w'" "Clean img \<notin> files w'"
        by auto
      moreover have "r = Inl (CallError c)" using patch_failed(7) removed(1) err by simp
      moreover have "Done (VolumeOpen p) \<in> set (new_events w w')"
        "Done (VolumeDelete p) \<in> set (new_events w w')"
        using new removed(2) by simp_all
      ultimately show ?thesis using created' by blast
    next
      case not_opened
      from removePloop_effect [OF rm] not_opened(1) v4 f4'
      have "ploops w' (Clean p) = Some (sz, Clean img)" "Clean p \<in> files w'" "Clean img \<in> files w'"
        by auto
      moreover have "r = Inl (CleanupError (CallError c) (CallError (VolumeOpen p)))"
        using patch_failed(7) not_opened(1) err by simp
      moreover have "Failed (VolumeOpen p) \<in> set (new_events w w')"
        using new not_opened(2) by simp
      ultimately show ?thesis using created' by blast
    next
      case not_deleted
      from removePloop_effect [OF rm] not_deleted(1) v4 f4'
      have "ploops w' (Clean p) = Some (sz, Clean img)" "Clean p \<in> files w'" "Clean img \<in> files w'"
        by auto
      moreover have "r = Inl (CleanupError (CallError c) (CallError (VolumeDelete p)))"
        using patch_failed(7) not_deleted(1) err by simp
      moreover have "Done (VolumeOpen p) \<in> set (new_events w w')"
        "Failed (VolumeDelete p) \<in> set (new_events w w')"
        using new not_deleted(2) by simp_all
      ultimately show ?thesis using created' by blast
    qed
  qed
qed

theorem Provision_patch_failure_witness:
  "patch_call (SecretPatch ''ns'' ''vz'' [''virtuozzo.com/u-1-pv''] [])
   \<and> Failed (SecretPatch ''ns'' ''vz'' [''virtuozzo.com/u-1-pv''] [])
       \<in> set (new_events world0 (snd (Provision env_no_patch claim0 world0)))
   \<and> fst (Provision env_no_patch claim0 world0)
       = Inl (CallError (SecretPatch ''ns'' ''vz'' [''virtuozzo.com/u-1-pv''] []))
   \<and> Done (VolumeCreate ''/export/virtuozzo-provisioner/mnt/c1/pool/kubernetes-dynamic-pvc-uid-1'' 4
             ''/export/virtuozzo-provisioner/mnt/c1/pool/kubernetes-dynamic-pvc-uid-1.image'')
       \<in> set (new_events world0 (snd (Provision env_no_patch claim0 world0)))
   \<and> Done (VolumeDelete ''/export/virtuozzo-provisioner/mnt/c1/pool/kubernetes-dynamic-pvc-uid-1'')
       \<in> set (new_events world0 (snd (Provision env_no_patch claim0 world0)))
   \<and> (\<exists>p sz img.
         Done (VolumeCreate p sz img) \<in> set (new_events world0 (snd (Provision env_no_patch claim0 world0)))
         \<and> Done (VolumeOpen p) \<in> set (new_events world0 (snd (Provision env_no_patch claim0 world0)))
         \<and> Done (VolumeDelete p) \<in> set (new_events world0 (snd (Provision env_no_patch claim0 world0)))
         \<and> ploops (snd (Provision env_no_patch claim0 world0)) (Clean p) = None
         \<and> Clean p \<notin> files (snd (Provision env_no_patch claim0 world0))
         \<and> Clean img \<notin> files (snd (Provision env_no_patch claim0 world0)))"
proof -
  let ?c = "SecretPatch ''ns'' ''vz'' [''virtuozzo.com/u-1-pv''] []"
  let ?r = "fst (Provision env_no_patch claim0 world0)"
  let ?w = "snd (Provision env_no_patch claim0 world0)"
  have run: "Provision env_no_patch claim0 world0 = (?r, ?w)"
    by simp
  have pc: "patch_call ?c"
    by (simp add: patch_call_def)
  have ev: "Failed ?c \<in> set (new_events world0 ?w)
     \<and> ?r = Inl (CallError ?c)
     \<and> Done (VolumeCreate ''/export/virtuozzo-provisioner/mnt/c1/pool/kubernetes-dynamic-pvc-uid-1'' 4
             ''/export/virtuozzo-provisioner/mnt/c1/pool/kubernetes-dynamic-pvc-uid-1.image'')
         \<in> set (new_events world0 ?w)
     \<and> Done (VolumeDelete ''/export/virtuozzo-provisioner/mnt/c1/pool/kubernetes-dynamic-pvc-uid-1'')
         \<in> set (new_events world0 ?w)"
    by (simp add: v1_defs claim0_def env_no_patch_def is_SecretPatch_def new_events_def
          path_defs value_defs call_defs example_defs Let_def
          cong: prod.case_cong_weak let_weak_cong)
  from ev have r: "?r = Inl (CallError ?c)" by blast
  from Provision_patch_failure [OF run pc conjunct1 [OF ev]] obtain p sz img where
    cr: "Done (VolumeCreate p sz img) \<in> set (new_events world0 ?w)"
    and alt: "(Done (VolumeOpen p) \<in> set (new_events world0 ?w)
                \<and> Done (VolumeDelete p) \<in> set (new_events world0 ?w)
                \<and> ?r = Inl (CallError ?c)
                \<and> ploops ?w (Clean p) = None \<and> Clean p \<notin> files ?w \<and> Clean img \<notin> files ?w)
            \<or> (Failed (VolumeOpen p) \<in> set (new_events world0 ?w)
                \<and> ?r = Inl (CleanupError (CallError ?c) (CallError (VolumeOpen p)))
                \<and> ploops ?w (Clean p) = Some (sz, Clean img)
                \<and> Clean p \<in> files ?w \<and> Clean img \<in> files ?w)
            \<or> (Done (VolumeOpen p) \<in> set (new_events world0 ?w)
                \<and> Failed (VolumeDelete p) \<in> set (new_events world0 ?w)
                \<and> ?r = Inl (CleanupError (CallError ?c) (CallError (VolumeDelete p)))
                \<and> ploops ?w (Clean p) = Some (sz, Clean img)
                \<and> Clean p \<in> files ?w \<and> Clean img \<in> files ?w)"
    by blast
  from alt r have "Done (VolumeOpen p) \<in> set (new_events world0 ?w)
                \<and> Done (VolumeDelete p) \<in> set (new_events world0 ?w)
                \<and> ploops ?w (Clean p) = None \<and> Clean p \<notin> files ?w \<and> Clean img \<notin> files ?w"
    by auto
  with cr pc ev show ?thesis by blast
qed

subsection \<open>Recording and clearing the obligation\<close>














text \<open>
  Where the finalizer is followed by other entries, \<open>Delete\<close> does not clear it.
  \<open>newSecret := *secret\<close> copies the slice value and not the array, and
  \<open>append(s[:idx], s[idx+1:]...)\<close> moves the later entries down in that array, so
  the list of the secret that was read, against which the patch is made, no longer
  holds the finalizer either, and the patch does not name it. After a second volume
  was provisioned with the same secret, the \<open>Delete\<close> of the first volume returns
  without error, its patch is carried out, and the finalizer of the first volume is
  still on the secret.
\<close>

lemma Delete_not_last:
  "map_option finalizers (secrets (snd (Provision env_2 claim2 world1)) (''ns'', ''vz''))
     = Some [''virtuozzo.com/u-1-pv'', ''virtuozzo.com/u-2-pv'']
   \<and> \<not> isl (fst (Provision env_2 claim2 world1))
   \<and> fst (Delete env_ok pv1_bound (snd (Provision env_2 claim2 world1))) = None
   \<and> (\<exists>a d. Done (SecretPatch ''ns'' ''vz'' a d)
         \<in> set (new_events (snd (Provision env_2 claim2 world1))
                 (snd (Delete env_ok pv1_bound (snd (Provision env_2 claim2 world1))))))
   \<and> (\<exists>s2. secrets (snd (Delete env_ok pv1_bound (snd (Provision env_2 claim2 world1))))
               (''ns'', ''vz'') = Some s2
           \<and> ''virtuozzo.com/u-1-pv'' \<in> set (finalizers s2))"
  by (simp add: v1_defs claim2_def claim0_def env_2_def pv1_bound_def pv1_def world1_def
        new_events_def path_defs value_defs call_defs example_defs Let_def
        cong: prod.case_cong_weak let_weak_cong)

subsection \<open>Creating a volume\<close>

text \<open>
  With the keys of the options distinct, as they are in a Go map, the first loop of
  \<open>createPloop\<close> reads the size that is stored under \<open>size\<close>.
\<close>

lemma scan_option_size:
  "distinct (map fst m) \<Longrightarrow>
   snd (snd (snd (foldl scan_option (a, b, c, d) m)))
     = (case map_of m ''size'' of None \<Rightarrow> d | Some v \<Rightarrow> v)"
proof (induction m arbitrary: a b c d)
  case Nil
  then show ?case by simp
next
  case (Cons kv m)
  obtain k v where kv: "kv = (k, v)" by (cases kv)
  from Cons.prems kv have d: "distinct (map fst m)" and k: "k \<notin> fst ` set m" by auto
  show ?case
  proof (cases "k = ''size''")
    case True
    with k have "map_of m ''size'' = None" by (simp add: map_of_eq_None_iff)
    with True kv Cons.IH [OF d, of a b c v] show ?thesis by (simp add: scan_option_def)
  next
    case False
    then show ?thesis
      using kv Cons.IH [OF d, of a b c d] Cons.IH [OF d, of v b c d]
            Cons.IH [OF d, of a v c d] Cons.IH [OF d, of a b v d]
      by (auto simp: scan_option_def)
  qed
qed

lemma scan_option_v0_size:
  "distinct (map fst m) \<Longrightarrow>
   snd (snd (foldl scan_option_v0 (a, b, d) m))
     = (case map_of m ''size'' of None \<Rightarrow> d | Some v \<Rightarrow> v)"
proof (induction m arbitrary: a b d)
  case Nil
  then show ?case by simp
next
  case (Cons kv m)
  obtain k v where kv: "kv = (k, v)" by (cases kv)
  from Cons.prems kv have d: "distinct (map fst m)" and k: "k \<notin> fst ` set m" by auto
  show ?case
  proof (cases "k = ''size''")
    case True
    with k have "map_of m ''size'' = None" by (simp add: map_of_eq_None_iff)
    with True kv Cons.IH [OF d, of a b v] show ?thesis by (simp add: scan_option_v0_def)
  next
    case False
    then show ?thesis
      using kv Cons.IH [OF d, of a b d] Cons.IH [OF d, of v b d] Cons.IH [OF d, of a v d]
      by (auto simp: scan_option_v0_def)
  qed
qed

lemma createPloop_v0_size:
  assumes run: "createPloop_v0 env mount options w = (None, w1)"
  shows "\<exists>volumePath volumeId size' f.
           foldl scan_option_v0 ([], [], []) options = (volumePath, volumeId, size')
         \<and> Done (PloopCreate (fst (ParseBytes env size') div 1024) f) \<in> set (new_events w w1)"
proof -
  obtain volumePath volumeId size' where
    scan: "foldl scan_option_v0 ([], [], []) options = (volumePath, volumeId, size')"
    by (metis prod_cases3)
  define p where "p = mount @ ''/'' @ lookup options ''volumePath'' @ ''/'' @ lookup options ''volumeId''"
  define sz where "sz = fst (ParseBytes env size') div 1024"
  from run scan have ne: "volumePath \<noteq> []" "volumeId \<noteq> []" "size' \<noteq> []"
    by (auto simp: createPloop_v0_def Let_def split: if_splits)
  obtain r1 wa where mk: "os_MkdirAll env p w = (r1, wa)" by (cases "os_MkdirAll env p w")
  with run scan ne have r1: "r1 = None"
    by (cases r1) (auto simp: createPloop_v0_def Let_def p_def)
  obtain r2 wb where sa: "set_attrs env p options wa = (r2, wb)"
    by (cases "set_attrs env p options wa")
  with run scan ne mk r1 have r2: "r2 = None"
    by (cases r2) (auto simp: createPloop_v0_def Let_def p_def)
  from run scan ne mk r1 sa r2
  have cr: "ploop_Create env sz (p @ ''/'' @ lookup options ''volumeId'') wb = (None, w1)"
    by (auto simp: createPloop_v0_def Let_def p_def sz_def)
  from mk r1 obtain e1 where t1: "trace wa = trace w @ e1"
    by (auto simp: os_MkdirAll_def log_event_def elim!: attempt_cases)
  from set_attrs_effect [OF sa] obtain e2 where t2: "trace wb = trace wa @ e2"
    by (auto simp: extends_def)
  from cr have t3: "trace w1 = trace wb @ [Done (PloopCreate sz (p @ ''/'' @ lookup options ''volumeId''))]"
    by (auto simp: ploop_Create_def log_event_def elim!: attempt_cases)
  from t1 t2 t3 have "Done (PloopCreate sz (p @ ''/'' @ lookup options ''volumeId'')) \<in> set (new_events w w1)"
    by (simp add: new_events_def)
  with scan show ?thesis unfolding sz_def by blast
qed

text \<open>
  C1, as stated, fails: \<open>createPloop\<close> drops the error of \<open>humanize.ParseBytes\<close>
  (\<open>bytes, _ := humanize.ParseBytes(size)\<close>). With the size \<open>abc\<close>, which the parser
  rejects, it returns without error, and the directory and a volume of size zero
  have been created, in the provisioner with finalizers and in the older one.
\<close>

theorem createPloop_unparseable_counterexample:
  "snd (ParseBytes env_ok ''abc'')
   \<and> fst (createPloop env_ok ''/export/virtuozzo-provisioner/mnt/c1'' options_abc world0) = None
   \<and> ''/export/virtuozzo-provisioner/mnt/c1/pool''
       \<in> files (snd (createPloop env_ok ''/export/virtuozzo-provisioner/mnt/c1'' options_abc world0))
   \<and> ploops (snd (createPloop env_ok ''/export/virtuozzo-provisioner/mnt/c1'' options_abc world0))
        ''/export/virtuozzo-provisioner/mnt/c1/pool/vol-1''
       = Some (0, ''/export/virtuozzo-provisioner/mnt/c1/pool/vol-1.image'')
   \<and> fst (createPloop_v0 env_ok ''/export/virtuozzo-provisioner/mnt/c1'' options_abc world0) = None
   \<and> ploops (snd (createPloop_v0 env_ok ''/export/virtuozzo-provisioner/mnt/c1'' options_abc world0))
        ''/export/virtuozzo-provisioner/mnt/c1/pool/vol-1/vol-1''
       = Some (0, ''/export/virtuozzo-provisioner/mnt/c1/pool/vol-1/vol-1'')"
  by (simp add: createPloop_def scan_option_def createPloop_v0_def scan_option_v0_def attr_name_def
        options_abc_def path_defs value_defs call_defs example_defs Let_def
        cong: prod.case_cong_weak let_weak_cong)

text \<open>
  C1, amended. A \<open>createPloop\<close> that returns without error has created the volume
  with the size, in kilobytes, that is the number of bytes the parser returned for
  the \<open>size\<close> option, divided by 1024; whether the parser reported an error plays
  no part. This holds of the provisioner with finalizers (\<open>PloopVolumeCreate\<close>) and
  of the older one (\<open>ploop.Create\<close>).
\<close>

theorem createPloop_size:
  assumes keys: "distinct (map fst options)"
  shows "(createPloop env mount options w = (None, w1) \<longrightarrow>
            (\<exists>p img. Done (VolumeCreate p (fst (ParseBytes env (lookup options ''size'')) div 1024) img)
                       \<in> set (new_events w w1)))
       \<and> (createPloop_v0 env mount options w = (None, w1) \<longrightarrow>
            (\<exists>f. Done (PloopCreate (fst (ParseBytes env (lookup options ''size'')) div 1024) f)
                   \<in> set (new_events w w1)))"
proof (intro conjI impI)
  assume run: "createPloop env mount options w = (None, w1)"
  from createPloop_effect [OF run] obtain volumePath deltasPath volumeID size' p img where
    scan: "foldl scan_option ([], [], [], []) options = (volumePath, deltasPath, volumeID, size')"
    and ne: "size' \<noteq> []"
    and ev: "Done (VolumeCreate p (fst (ParseBytes env size') div 1024) img) \<in> set (new_events w w1)"
    by (auto simp: Let_def)
  from scan_option_size [OF keys, of "[]" "[]" "[]" "[]"] scan ne
  have "size' = lookup options ''size''"
    by (simp add: lookup_def split: option.splits)
  with ev show "\<exists>p img. Done (VolumeCreate p (fst (ParseBytes env (lookup options ''size'')) div 1024) img)
                       \<in> set (new_events w w1)"
    by blast
next
  assume run: "createPloop_v0 env mount options w = (None, w1)"
  from createPloop_v0_size [OF run] obtain volumePath volumeId size' f where
    scan: "foldl scan_option_v0 ([], [], []) options = (volumePath, volumeId, size')"
    and ev: "Done (PloopCreate (fst (ParseBytes env size') div 1024) f) \<in> set (new_events w w1)"
    by blast
  from scan_option_v0_size [OF keys, of "[]" "[]" "[]"] scan
  have "size' = lookup options ''size''"
    by (simp add: lookup_def split: option.splits)
  with ev show "\<exists>f. Done (PloopCreate (fst (ParseBytes env (lookup options ''size'')) div 1024) f)
                   \<in> set (new_events w w1)"
    by blast
qed

text \<open>
  For the size \<open>10G\<close>, read by the parser as 10 * 2^30 bytes, the volume has
  10,485,760 kilobytes.
\<close>

theorem createPloop_size_witness:
  "distinct (map fst options_10G)
   \<and> createPloop env_ok ''/export/virtuozzo-provisioner/mnt/c1'' options_10G world0
       = (None, snd (createPloop env_ok ''/export/virtuozzo-provisioner/mnt/c1'' options_10G world0))
   \<and> createPloop_v0 env_ok ''/export/virtuozzo-provisioner/mnt/c1'' options_10G world0
       = (None, snd (createPloop_v0 env_ok ''/export/virtuozzo-provisioner/mnt/c1'' options_10G world0))
   \<and> (\<exists>p img. Done (VolumeCreate p 10485760 img)
         \<in> set (new_events world0
                 (snd (createPloop env_ok ''/export/virtuozzo-provisioner/mnt/c1'' options_10G world0))))
   \<and> (\<exists>f. Done (PloopCreate 10485760 f)
         \<in> set (new_events world0
                 (snd (createPloop_v0 env_ok ''/export/virtuozzo-provisioner/mnt/c1'' options_10G world0))))"
proof -
  have keys: "distinct (map fst options_10G)" by (simp add: options_10G_def)
  have sz: "fst (ParseBytes env_ok (lookup options_10G ''size'')) div 1024 = 10485760"
    by (simp add: options_10G_def value_defs example_defs Let_def)
  have r1: "fst (createPloop env_ok ''/export/virtuozzo-provisioner/mnt/c1'' options_10G world0) = None"
    by (simp add: createPloop_def scan_option_def attr_name_def options_10G_def
          path_defs value_defs call_defs example_defs Let_def
          cong: prod.case_cong_weak let_weak_cong)
  have r0: "fst (createPloop_v0 env_ok ''/export/virtuozzo-provisioner/mnt/c1'' options_10G world0) = None"
    by (simp add: createPloop_v0_def scan_option_v0_def attr_name_def options_10G_def
          path_defs value_defs call_defs example_defs Let_def
          cong: prod.case_cong_weak let_weak_cong)
  from r1 have e1: "createPloop env_ok ''/export/virtuozzo-provisioner/mnt/c1'' options_10G world0
       = (None, snd (createPloop env_ok ''/export/virtuozzo-provisioner/mnt/c1'' options_10G world0))"
    by (simp add: prod_eq_iff)
  from r0 have e0: "createPloop_v0 env_ok ''/export/virtuozzo-provisioner/mnt/c1'' options_10G world0
       = (None, snd (createPloop_v0 env_ok ''/export/virtuozzo-provisioner/mnt/c1'' options_10G world0))"
    by (simp add: prod_eq_iff)
  from createPloop_size [where options = options_10G and env = env_ok
         and mount = "''/export/virtuozzo-provisioner/mnt/c1''" and w = world0
         and ?w1.0 = "snd (createPloop env_ok ''/export/virtuozzo-provisioner/mnt/c1'' options_10G world0)",
         OF keys] e1
  have a: "\<exists>p img. Done (VolumeCreate p 10485760 img)
         \<in> set (new_events world0
                 (snd (createPloop env_ok ''/export/virtuozzo-provisioner/mnt/c1'' options_10G world0)))"
    by (simp only: sz simp_thms)
  from createPloop_size [where options = options_10G and env = env_ok
         and mount = "''/export/virtuozzo-provisioner/mnt/c1''" and w = world0
         and ?w1.0 = "snd (createPloop_v0 env_ok ''/export/virtuozzo-provisioner/mnt/c1'' options_10G world0)",
         OF keys] e0
  have b: "\<exists>f. Done (PloopCreate 10485760 f)
         \<in> set (new_events world0
                 (snd (createPloop_v0 env_ok ''/export/virtuozzo-provisioner/mnt/c1'' options_10G world0)))"
    by (simp only: sz simp_thms)
  from keys e1 e0 a b show ?thesis by blast
qed

subsection \<open>Rolling back a volume whose placement failed\<close>

text \<open>
  C2 does not hold of \<open>createPloop\<close> in the provisioner with finalizers. When
  \<open>vstorage set-attr\<close> fails, \<open>os.RemoveAll(ploopPath)\<close> removes the volume directory
  and the error is returned, but the image, which \<open>PloopVolumeCreate\<close> made beside
  the directory (\<open>volumeID.image\<close> in the deltas path), is still there.
\<close>

theorem createPloop_rollback_leaves_image:
  "fst (createPloop env_no_attr ''/export/virtuozzo-provisioner/mnt/c1'' options_tier world0)
     = Some (UnableToSet ''tier'' ''9''
               (CallError (SetAttr ''/export/virtuozzo-provisioner/mnt/c1/pool/vol-1'' ''tier'' ''9'')))
   \<and> Done (RemoveAll ''/export/virtuozzo-provisioner/mnt/c1/pool/vol-1'')
       \<in> set (trace (snd (createPloop env_no_attr ''/export/virtuozzo-provisioner/mnt/c1'' options_tier world0)))
   \<and> ''/export/virtuozzo-provisioner/mnt/c1/pool/vol-1''
       \<notin> files (snd (createPloop env_no_attr ''/export/virtuozzo-provisioner/mnt/c1'' options_tier world0))
   \<and> ''/export/virtuozzo-provisioner/mnt/c1/pool/vol-1.image''
       \<in> files (snd (createPloop env_no_attr ''/export/virtuozzo-provisioner/mnt/c1'' options_tier world0))"
  by (simp add: createPloop_def scan_option_def attr_name_def options_tier_def env_no_attr_def
        is_SetAttr_def path_defs value_defs call_defs example_defs Let_def
        cong: prod.case_cong_weak let_weak_cong)

end
